theory Spec2Isabelle
  imports Main "HOL-Library.AList"
begin

section \<open>JavaScript values\<close>

text \<open>
  The gateway (src/index.js) works on values that come out of \<^verbatim>\<open>JSON.parse\<close> and
  \<^verbatim>\<open>request.json()\<close>. They are modelled by the datatype \<open>json\<close>. An object is an
  association list read with \<open>map_of\<close> (the first binding of a key is the property) and
  written with \<open>AList.update\<close> (an existing key keeps its place, a new key goes to the end,
  as in JavaScript). The gateway does two things with a number: it tests it for truth and
  it converts it to a string. A number is therefore represented by its string conversion,
  \<open>JNum ''0''\<close> for zero (of either sign), \<open>JNum ''1e+21''\<close>, \<open>JNum ''0.5''\<close>; zero is the
  only falsy number \<^verbatim>\<open>JSON.parse\<close> can return. \<open>undefined\<close> is not a JSON value; a property
  read returns a \<open>json option\<close> whose \<open>None\<close> is \<open>undefined\<close>. Strings are lists of 8-bit
  characters.
\<close>

datatype json =
    JNull
  | JBool bool
  | JNum string
  | JStr string
  | JArr "json list"
  | JObj "(string \<times> json) list"

datatype exn = TypeError | D1Error | SyntaxError | NetworkError

text \<open>JavaScript truthiness (\<open>!v\<close> is \<open>\<not> truthy v\<close>).\<close>

fun truthy :: "json \<Rightarrow> bool" where
  "truthy JNull = False"
| "truthy (JBool b) = b"
| "truthy (JNum n) = (n \<noteq> ''0'')"
| "truthy (JStr s) = (s \<noteq> [])"
| "truthy (JArr xs) = True"
| "truthy (JObj kvs) = True"

fun truthy_opt :: "json option \<Rightarrow> bool" where
  "truthy_opt None = False"
| "truthy_opt (Some v) = truthy v"

text \<open>\<open>a || b\<close> for a possibly undefined \<open>a\<close> and a defined \<open>b\<close>.\<close>

fun or_else :: "json option \<Rightarrow> json \<Rightarrow> json" where
  "or_else None d = d"
| "or_else (Some v) d = (if truthy v then v else d)"

text \<open>
  A property read \<open>v.k\<close>. Reading a property of \<open>null\<close> throws a TypeError. The names the
  gateway reads (request_id, version, service, payload, type, action, table_name, token,
  authKeyEnvName, targetUrl, channelName) are not properties of the String, Number,
  Boolean or Array prototypes, so a read on such a value gives \<open>undefined\<close>.
\<close>

fun get_prop :: "json \<Rightarrow> string \<Rightarrow> exn + json option" where
  "get_prop JNull k = Inl TypeError"
| "get_prop (JObj kvs) k = Inr (map_of kvs k)"
| "get_prop (JBool b) k = Inr None"
| "get_prop (JNum n) k = Inr None"
| "get_prop (JStr s) k = Inr None"
| "get_prop (JArr xs) k = Inr None"

text \<open>
  The assignment \<open>target.k = v\<close> in strict mode (src/index.js is an ES module): it throws
  on \<open>undefined\<close>, \<open>null\<close> and on a primitive. On an array the named property is created on
  the array object, but \<^verbatim>\<open>JSON.stringify\<close> writes the elements of an array only, so the
  value that is serialised later is the same array.
\<close>

fun assign :: "json option \<Rightarrow> string \<Rightarrow> json \<Rightarrow> exn + json" where
  "assign (Some (JObj kvs)) k v = Inr (JObj (AList.update k v kvs))"
| "assign (Some (JArr xs)) k v = Inr (JArr xs)"
| "assign (Some JNull) k v = Inl TypeError"
| "assign (Some (JBool b)) k v = Inl TypeError"
| "assign (Some (JNum n)) k v = Inl TypeError"
| "assign (Some (JStr s)) k v = Inl TypeError"
| "assign None k v = Inl TypeError"

text \<open>The operator \<open>k in target\<close>: a TypeError unless the target is an object.\<close>

fun has_property :: "string \<Rightarrow> json option \<Rightarrow> exn + bool" where
  "has_property k (Some (JObj kvs)) = Inr (map_of kvs k \<noteq> None)"
| "has_property k (Some (JArr xs)) = Inr False"
| "has_property k (Some JNull) = Inl TypeError"
| "has_property k (Some (JBool b)) = Inl TypeError"
| "has_property k (Some (JNum n)) = Inl TypeError"
| "has_property k (Some (JStr s)) = Inl TypeError"
| "has_property k None = Inl TypeError"

text \<open>\<open>delete target.k\<close>, reached only after \<open>k in target\<close> has answered true.\<close>

fun delete_property :: "json option \<Rightarrow> string \<Rightarrow> exn + json" where
  "delete_property (Some (JObj kvs)) k = Inr (JObj (AList.delete k kvs))"
| "delete_property (Some (JArr xs)) k = Inr (JArr xs)"
| "delete_property (Some JNull) k = Inl TypeError"
| "delete_property (Some (JBool b)) k = Inr (JBool b)"
| "delete_property (Some (JNum n)) k = Inr (JNum n)"
| "delete_property (Some (JStr s)) k = Inr (JStr s)"
| "delete_property None k = Inl TypeError"

subsection \<open>String conversion\<close>

fun join_comma :: "string list \<Rightarrow> string" where
  "join_comma [] = []"
| "join_comma [s] = s"
| "join_comma (s # t # ss) = s @ '','' @ join_comma (t # ss)"

text \<open>The results of a list of conversions, or the first exception one of them threw.\<close>

fun all_or_throw :: "(exn + 'a) list \<Rightarrow> exn + 'a list" where
  "all_or_throw [] = Inr []"
| "all_or_throw (Inl e # rs) = Inl e"
| "all_or_throw (Inr x # rs) = (case all_or_throw rs of Inl e \<Rightarrow> Inl e | Inr xs \<Rightarrow> Inr (x # xs))"

text \<open>
  \<open>String(v)\<close>, the conversion a template literal, a property key, \<open>btoa\<close> and
  \<open>encodeURIComponent\<close> apply to their argument. An array is the comma-joined conversion
  of its elements, \<open>null\<close> elements giving the empty string. An object is converted by
  its \<open>toString\<close> property: a parsed object that has no such key inherits the one of
  \<open>Object.prototype\<close> and gives "[object Object]"; one that has the key holds a JSON
  value there, which cannot be called, and its \<open>valueOf\<close> (own and not callable, or
  inherited and returning the object) gives no primitive either, so the conversion throws
  a TypeError.
\<close>

fun ToString :: "json \<Rightarrow> exn + string" where
  "ToString JNull = Inr ''null''"
| "ToString (JBool b) = Inr (if b then ''true'' else ''false'')"
| "ToString (JNum n) = Inr n"
| "ToString (JStr s) = Inr s"
| "ToString (JArr xs) =
     (case all_or_throw (map (\<lambda>x. if x = JNull then Inr [] else ToString x) xs) of
        Inl e \<Rightarrow> Inl e
      | Inr ss \<Rightarrow> Inr (join_comma ss))"
| "ToString (JObj kvs) =
     (if map_of kvs ''toString'' \<noteq> None then Inl TypeError else Inr ''[object Object]'')"

fun String_opt :: "json option \<Rightarrow> exn + string" where
  "String_opt None = Inr ''undefined''"
| "String_opt (Some v) = ToString v"

text \<open>\<open>s.startsWith(p)\<close> and \<open>s.split(" ")\<close>, then \<open>xs[i]\<close> (\<open>undefined\<close> out of range).\<close>

fun startsWith :: "string \<Rightarrow> string \<Rightarrow> bool" where
  "startsWith s [] = True"
| "startsWith [] (p # ps) = False"
| "startsWith (c # cs) (p # ps) = (c = p \<and> startsWith cs ps)"

fun split_space :: "string \<Rightarrow> string list" where
  "split_space [] = ['''']"
| "split_space (c # cs) =
     (if c = CHR '' '' then [] # split_space cs
      else (case split_space cs of [] \<Rightarrow> [c # []] | w # ws \<Rightarrow> (c # w) # ws))"

definition index :: "'a list \<Rightarrow> nat \<Rightarrow> 'a option" where
  "index xs i = (if i < length xs then Some (xs ! i) else None)"

subsection \<open>\<open>btoa\<close>: base64 of a string of 8-bit characters\<close>

definition b64 :: "nat \<Rightarrow> char" where
  "b64 n = ''ABCDEFGHIJKLMNOPQRSTUVWXYZabcdefghijklmnopqrstuvwxyz0123456789+/'' ! (n mod 64)"

fun b64_groups :: "nat list \<Rightarrow> string" where
  "b64_groups (a # b # c # bs) =
     [b64 (a div 4), b64 ((a mod 4) * 16 + b div 16), b64 ((b mod 16) * 4 + c div 64), b64 (c mod 64)]
       @ b64_groups bs"
| "b64_groups [a, b] =
     [b64 (a div 4), b64 ((a mod 4) * 16 + b div 16), b64 ((b mod 16) * 4), CHR ''='']"
| "b64_groups [a] = [b64 (a div 4), b64 ((a mod 4) * 16), CHR ''='', CHR ''='']"
| "b64_groups [] = []"

definition btoa :: "string \<Rightarrow> string" where
  "btoa s = b64_groups (map of_char s)"

section \<open>Effects: exceptions and the trace of calls\<close>

text \<open>
  What the gateway sends to a backend. \<open>out_body\<close> is the value handed to
  \<^verbatim>\<open>JSON.stringify\<close>; the text on the wire is its JSON encoding.
\<close>

record out_request =
  out_url :: string
  out_method :: string
  out_headers :: "(string \<times> string) list"
  out_body :: json

record reply =
  reply_status :: nat
  reply_text :: string

datatype event =
    D1_query string
  | Fetch out_request
  | Console_warn
  | Console_error

text \<open>
  A computation either returns or throws, and leaves the list of the calls it made to the
  store, to \<open>fetch\<close> and to the console, in order.
\<close>

type_synonym 'a comp = "(exn + 'a) \<times> event list"

definition ret :: "'a \<Rightarrow> 'a comp" where
  "ret v = (Inr v, [])"

definition throw :: "exn \<Rightarrow> 'a comp" where
  "throw e = (Inl e, [])"

definition lift :: "exn + 'a \<Rightarrow> 'a comp" where
  "lift r = (r, [])"

definition emit :: "event \<Rightarrow> unit comp" where
  "emit ev = (Inr (), [ev])"

definition bind :: "'a comp \<Rightarrow> ('a \<Rightarrow> 'b comp) \<Rightarrow> 'b comp" where
  "bind m f =
     (case m of
        (Inl e, t) \<Rightarrow> (Inl e, t)
      | (Inr v, t) \<Rightarrow> (case f v of (r, t') \<Rightarrow> (r, t @ t')))"

text \<open>\<open>try { m } catch (e) { h e }\<close>\<close>

definition try_catch :: "'a comp \<Rightarrow> (exn \<Rightarrow> 'a comp) \<Rightarrow> 'a comp" where
  "try_catch m h =
     (case m of
        (Inl e, t) \<Rightarrow> (case h e of (r, t') \<Rightarrow> (r, t @ t'))
      | (Inr v, t) \<Rightarrow> (Inr v, t))"

section \<open>The platform and the module state\<close>

text \<open>
  The D1 handle answers \<^verbatim>\<open>prepare(query).bind(key).all()\<close>: the call rejects, or it
  resolves to an object whose \<open>results\<close> is undefined or a list of rows; a row has the
  one selected column \<open>t1\<close>, NULL or a text.
\<close>

datatype row = Row (t1: "string option")

datatype d1_result = D1_rejects | D1_results "row list option"

text \<open>
  The built-ins the gateway calls and the repository does not define: \<^verbatim>\<open>JSON.parse\<close>
  (\<open>None\<close> is a SyntaxError), \<^verbatim>\<open>encodeURIComponent\<close> and \<^verbatim>\<open>fetch\<close> (\<open>None\<close> is a
  rejected promise).
\<close>

record platform =
  JSON_parse :: "string \<Rightarrow> json option"
  encodeURIComponent :: "string \<Rightarrow> string"
  fetch :: "out_request \<Rightarrow> reply option"

text \<open>
  \<open>DA_SERVICE_MAP\<close> is imported from router.js, which every deployment writes from
  src/router.template.js: an object literal whose values are route object literals.
  A key that \<open>handleApi\<close> looks up contains a slash, so it never names a property the
  object inherits from its prototype: the lookup is a lookup among the table's own
  entries. \<open>G_DB\<close> is \<open>env.DB\<close> (\<open>None\<close> when the binding is not configured). The
  environment object \<open>env\<close> is described by its own properties: \<open>G_ENV\<close> holds the ones
  that are texts (secrets and variables), \<open>G_ENV_objects\<close> the others (bindings that are
  objects), each with its string conversion. The worker's \<open>fetch\<close> entry sets \<open>G_DB\<close> and
  \<open>G_ENV\<close> from \<open>env\<close> before it calls \<open>handleApi\<close>.
\<close>

record gateway =
  DA_SERVICE_MAP :: "string \<rightharpoonup> (string \<times> json) list"
  G_DB :: "(string \<Rightarrow> d1_result) option"
  G_ENV :: "string \<rightharpoonup> string"
  G_ENV_objects :: "string \<rightharpoonup> string"

text \<open>
  The read \<open>G_ENV[name]\<close>. It finds an own property of \<open>env\<close>, or else a property that
  \<open>env\<close> inherits from \<open>Object.prototype\<close>: the constructor and the methods, which are
  functions, and \<open>__proto__\<close>, which is the prototype object. \<open>Secret s\<close> is a text;
  \<open>Object t\<close> is an object or a function, which is truthy and whose string conversion is
  \<open>t\<close>. A configured D1 handle is the own property \<open>DB\<close>.
\<close>

datatype env_value = Secret string | Object string

definition Object_prototype :: "string \<rightharpoonup> string" where
  "Object_prototype name =
     (if name = ''__proto__'' then Some ''[object Object]''
      else if name = ''constructor'' then Some ''function Object() { [native code] }''
      else if name \<in> set [''toString'', ''toLocaleString'', ''valueOf'', ''hasOwnProperty'',
                            ''isPrototypeOf'', ''propertyIsEnumerable'', ''__defineGetter__'',
                            ''__defineSetter__'', ''__lookupGetter__'', ''__lookupSetter__'']
           then Some (''function '' @ name @ ''() { [native code] }'')
           else None)"

definition env_read :: "gateway \<Rightarrow> string \<Rightarrow> env_value option" where
  "env_read G name =
     (case G_ENV G name of
        Some s \<Rightarrow> Some (Secret s)
      | None \<Rightarrow>
          (case G_ENV_objects G name of
             Some t \<Rightarrow> Some (Object t)
           | None \<Rightarrow>
               if name = ''DB'' \<and> G_DB G \<noteq> None then Some (Object ''[object Object]'')
               else map_option Object (Object_prototype name)))"

text \<open>
  The variable \<open>routeToken\<close> of the handlers holds \<open>route.token\<close> or what the read of the
  environment gave.
\<close>

datatype route_token = From_route "json option" | From_env "env_value option"

fun truthy_token :: "route_token \<Rightarrow> bool" where
  "truthy_token (From_route v) = truthy_opt v"
| "truthy_token (From_env None) = False"
| "truthy_token (From_env (Some (Secret s))) = (s \<noteq> [])"
| "truthy_token (From_env (Some (Object t))) = True"

fun String_token :: "route_token \<Rightarrow> exn + string" where
  "String_token (From_route v) = String_opt v"
| "String_token (From_env None) = Inr ''undefined''"
| "String_token (From_env (Some (Secret s))) = Inr s"
| "String_token (From_env (Some (Object t))) = Inr t"

definition C_GATEWAY_TOKEN_NAME :: string where
  "C_GATEWAY_TOKEN_NAME = ''DA_GATEWAY_TOKEN''"

definition ABLY_PUBLISH_BASE_URL :: string where
  "ABLY_PUBLISH_BASE_URL = ''https://rest.ably.io/channels''"

text \<open>The template's table (src/router.template.js).\<close>

definition template_map :: "string \<rightharpoonup> (string \<times> json) list" where
  "template_map = map_of
     [(''v99/demorest'',
         [(''type'', JStr ''REST''),
          (''targetUrl'', JStr ''https://v1-users-api.example.com''),
          (''authKeyEnvName'', JStr ''REST_API_BEARER_TOKEN'')]),
      (''v88/demoably'',
         [(''type'', JStr ''ABLY''),
          (''authKeyEnvName'', JStr ''ABLY_API_KEY''),
          (''channelName'', JStr ''system_bus_v1'')])]"

section \<open>Responses\<close>

text \<open>
  \<open>JsonResponse st v\<close> is \<^verbatim>\<open>new Response(JSON.stringify(v), {status: st, headers:
  {"Content-Type": "application/json"}})\<close>; \<open>Forwarded r\<close> is the backend's response
  returned as it is.
\<close>

datatype response =
    JsonResponse nat json
  | Forwarded reply

definition jsonResponse :: "json \<Rightarrow> nat \<Rightarrow> response" where
  "jsonResponse obj status = JsonResponse status obj"

definition nack :: "json \<Rightarrow> string \<Rightarrow> string \<Rightarrow> response" where
  "nack requestId code message =
     jsonResponse
       (JObj [(''type'', JStr ''nack''), (''request_id'', requestId),
              (''payload'', JObj [(''status'', JStr ''error''), (''code'', JStr code),
                                  (''message'', JStr message)])])
       400"

definition jsonError :: "string \<Rightarrow> nat \<Rightarrow> response" where
  "jsonError msg code = JsonResponse code (JObj [(''success'', JBool False), (''error'', JStr msg)])"

text \<open>\<open>{ success: true, ...data }\<close>: the spread writes the properties of \<open>data\<close> in order.\<close>

definition jsonSuccess :: "(string \<times> json) list \<Rightarrow> response" where
  "jsonSuccess data =
     JsonResponse 200 (JObj (foldl (\<lambda>obj (k, v). AList.update k v obj) [(''success'', JBool True)] data))"

section \<open>The route store: \<open>findRouteFromDB\<close>\<close>

text \<open>
  The body of the outer \<open>try\<close> of \<open>findRouteFromDB\<close> (src/index.js, lines 198 to 215).
  The inner \<open>try\<close> around \<^verbatim>\<open>JSON.parse\<close> logs and returns \<open>null\<close>.
\<close>

definition query_route :: "platform \<Rightarrow> (string \<Rightarrow> d1_result) \<Rightarrow> string \<Rightarrow> json comp" where
  "query_route P db key =
     bind (emit (D1_query key)) (\<lambda>_.
       case db key of
         D1_rejects \<Rightarrow> throw D1Error
       | D1_results None \<Rightarrow> ret JNull
       | D1_results (Some []) \<Rightarrow> ret JNull
       | D1_results (Some (row # rest)) \<Rightarrow>
           (case t1 row of
              None \<Rightarrow> ret JNull
            | Some text \<Rightarrow>
                if text = [] then ret JNull
                else try_catch
                       (case JSON_parse P text of
                          None \<Rightarrow> throw SyntaxError
                        | Some config \<Rightarrow> ret config)
                       (\<lambda>err. bind (emit Console_error) (\<lambda>_. ret JNull))))"

definition findRouteFromDB :: "platform \<Rightarrow> gateway \<Rightarrow> string \<Rightarrow> json comp" where
  "findRouteFromDB P G key =
     (case G_DB G of
        None \<Rightarrow> ret JNull
      | Some db \<Rightarrow>
          try_catch (query_route P db key)
            (\<lambda>e. bind (emit Console_error) (\<lambda>_. ret JNull)))"

section \<open>The handlers\<close>

text \<open>
  \<open>handleRest\<close>, lines 14 to 28: the credential, the headers and the request given to
  \<open>fetch\<close>. The conversions of \<open>routeToken\<close> (line 23) and of \<open>route.targetUrl\<close> (the
  first argument of \<open>fetch\<close>, line 24) can throw; then nothing is sent.
\<close>

definition handleRest_request :: "gateway \<Rightarrow> json \<Rightarrow> json \<Rightarrow> out_request comp" where
  "handleRest_request G route bodyJson =
     bind (lift (get_prop route ''token'')) (\<lambda>token.
     bind (if \<not> truthy_opt token \<or> token = Some (JStr [])
           then bind (lift (get_prop route ''authKeyEnvName'')) (\<lambda>authKeyEnvName.
                  if truthy_opt authKeyEnvName
                  then bind (lift (String_opt authKeyEnvName)) (\<lambda>name.
                         ret (From_env (env_read G name)))
                  else ret (From_route token))
           else ret (From_route token)) (\<lambda>routeToken.
     bind (if truthy_token routeToken
           then bind (lift (String_token routeToken)) (\<lambda>text.
                  ret [(''Authorization'', ''Bearer '' @ text)])
           else ret []) (\<lambda>authorization.
     bind (lift (get_prop route ''targetUrl'')) (\<lambda>targetUrl.
     bind (lift (String_opt targetUrl)) (\<lambda>url.
       ret \<lparr>out_url = url,
            out_method = ''POST'',
            out_headers = (''Content-Type'', ''application/json'') # authorization,
            out_body = bodyJson\<rparr>)))))"

definition do_fetch :: "platform \<Rightarrow> out_request \<Rightarrow> reply comp" where
  "do_fetch P req =
     bind (emit (Fetch req)) (\<lambda>_.
       case fetch P req of None \<Rightarrow> throw NetworkError | Some res \<Rightarrow> ret res)"

definition handleRest :: "platform \<Rightarrow> gateway \<Rightarrow> json \<Rightarrow> json \<Rightarrow> response comp" where
  "handleRest P G route bodyJson =
     bind (handleRest_request G route bodyJson) (\<lambda>req.
     bind (do_fetch P req) (\<lambda>res. ret (Forwarded res)))"

text \<open>
  \<open>handleAbly\<close>, lines 35 to 57: the request that is published. \<open>encodeURIComponent\<close>
  (line 42) and \<open>btoa\<close> (line 53) convert their argument to a string first.
\<close>

definition handleAbly_request :: "platform \<Rightarrow> gateway \<Rightarrow> json \<Rightarrow> json \<Rightarrow> out_request comp" where
  "handleAbly_request P G route bodyJson =
     bind (lift (get_prop route ''token'')) (\<lambda>token.
     bind (if \<not> truthy_opt token \<or> token = Some (JStr [])
           then bind (lift (get_prop route ''authKeyEnvName'')) (\<lambda>authKeyEnvName.
                  if truthy_opt authKeyEnvName
                  then bind (lift (String_opt authKeyEnvName)) (\<lambda>name.
                         ret (From_env (env_read G name)))
                  else ret (From_route token))
           else ret (From_route token)) (\<lambda>routeToken.
     bind (lift (get_prop route ''channelName'')) (\<lambda>channel.
     bind (lift (String_opt channel)) (\<lambda>channel_text.
     bind (lift (get_prop bodyJson ''action'')) (\<lambda>action.
     bind (lift (String_token routeToken)) (\<lambda>token_text.
       let publishEndpoint =
             ABLY_PUBLISH_BASE_URL @ ''/'' @ encodeURIComponent P channel_text @ ''/messages'';
           ablyName = or_else action (JStr ''gateway-event'');
           messageBusPayload = JArr [JObj [(''name'', ablyName), (''data'', bodyJson)]]
       in ret \<lparr>out_url = publishEndpoint,
               out_method = ''POST'',
               out_headers =
                 [(''Authorization'', ''Basic '' @ btoa token_text),
                  (''Content-Type'', ''application/json'')],
               out_body = messageBusPayload\<rparr>))))))"

definition handleAbly :: "platform \<Rightarrow> gateway \<Rightarrow> json \<Rightarrow> json \<Rightarrow> response comp" where
  "handleAbly P G route bodyJson =
     bind (handleAbly_request P G route bodyJson) (\<lambda>publishRequest.
     bind (lift (get_prop route ''channelName'')) (\<lambda>channel.
     bind (do_fetch P publishRequest) (\<lambda>publishResponse.
       if 200 \<le> reply_status publishResponse \<and> reply_status publishResponse \<le> 299
       then bind (lift (String_opt channel)) (\<lambda>channel_text.
              ret (jsonSuccess
                     [(''status'', JStr ''Accepted''),
                      (''message'',
                         JStr (''Event published successfully to Ably channel: '' @ channel_text))]))
       else ret (jsonError (''Failed to publish event to Ably: '' @ reply_text publishResponse) 502))))"

section \<open>\<open>handleApi\<close>\<close>

text \<open>
  The inbound request: what \<^verbatim>\<open>request.headers.get("Authorization")\<close> returns (\<open>None\<close>
  is \<open>null\<close>) and what \<^verbatim>\<open>request.json()\<close> resolves to (\<open>None\<close>: it rejects).
\<close>

record request =
  authorization :: "string option"
  json_body :: "json option"

text \<open>
  Lines 101 to 109: the static table first, then the store. \<open>Inl\<close> is the early return
  of the nack.
\<close>

definition store_fallback :: "platform \<Rightarrow> gateway \<Rightarrow> json \<Rightarrow> string \<Rightarrow> (response + json) comp" where
  "store_fallback P G requestId key =
     bind (findRouteFromDB P G key) (\<lambda>route.
       if \<not> truthy route
       then ret (Inl (nack requestId ''NO_ROUTE'' (''No route found for '' @ key)))
       else ret (Inr route))"

definition resolve :: "platform \<Rightarrow> gateway \<Rightarrow> json \<Rightarrow> string \<Rightarrow> (response + json) comp" where
  "resolve P G requestId key =
     (case map_option JObj (DA_SERVICE_MAP G key) of
        None \<Rightarrow> store_fallback P G requestId key
      | Some route \<Rightarrow>
          if \<not> truthy route then store_fallback P G requestId key else ret (Inr route))"

text \<open>
  Lines 111 to 122: the \<open>table_name\<close> step. It returns the body as it is serialised
  afterwards; the write goes to the object \<open>body.payload\<close> refers to. The warning of
  line 121 converts \<open>route.targetUrl\<close> to a string, outside any \<open>try\<close>.
\<close>

definition set_payload :: "json \<Rightarrow> json \<Rightarrow> json" where
  "set_payload body payload =
     (case body of JObj kvs \<Rightarrow> JObj (AList.update ''payload'' payload kvs) | _ \<Rightarrow> body)"

definition strip_table_name :: "json \<Rightarrow> json comp" where
  "strip_table_name body =
     bind (lift (get_prop body ''payload'')) (\<lambda>payload.
     bind (lift (has_property ''table_name'' payload)) (\<lambda>present.
       if present
       then bind (lift (delete_property payload ''table_name'')) (\<lambda>payload'.
              ret (set_payload body payload'))
       else ret body))"

definition inject_table_name :: "json \<Rightarrow> json \<Rightarrow> json comp" where
  "inject_table_name route body =
     try_catch
       (bind (lift (get_prop route ''table_name'')) (\<lambda>table_name.
          case table_name of
            None \<Rightarrow> strip_table_name body
          | Some name \<Rightarrow>
              if truthy name
              then bind (lift (get_prop body ''payload'')) (\<lambda>payload.
                   bind (lift (assign payload ''table_name'' name)) (\<lambda>payload'.
                     ret (set_payload body payload')))
              else strip_table_name body))
       (\<lambda>err. bind (lift (get_prop route ''targetUrl'')) (\<lambda>targetUrl.
              bind (lift (String_opt targetUrl)) (\<lambda>url.
              bind (emit Console_warn) (\<lambda>_. ret body))))"

text \<open>
  Lines 124 to 136: the switch on \<open>route.type\<close> and its \<open>catch\<close>. The default branch
  and the handler of the \<open>catch\<close> both convert \<open>body.type\<close> to a string.
\<close>

definition dispatch :: "platform \<Rightarrow> gateway \<Rightarrow> json \<Rightarrow> json \<Rightarrow> response comp" where
  "dispatch P G route body =
     try_catch
       (bind (lift (get_prop route ''type'')) (\<lambda>type.
          if type = Some (JStr ''REST'') then handleRest P G route body
          else if type = Some (JStr ''ABLY'') then handleAbly P G route body
          else bind (lift (get_prop body ''type'')) (\<lambda>body_type.
               bind (lift (String_opt body_type)) (\<lambda>type_text.
                 ret (jsonError (''Unsupported service type: '' @ type_text) 501)))))
       (\<lambda>e. bind (lift (get_prop body ''type'')) (\<lambda>body_type.
            bind (lift (String_opt body_type)) (\<lambda>type_text.
            bind (emit Console_error) (\<lambda>_.
              ret (jsonError ''Gateway processing failed'' 500)))))"

definition handleApi :: "platform \<Rightarrow> gateway \<Rightarrow> request \<Rightarrow> response comp" where
  "handleApi P G request =
     (case authorization request of
        None \<Rightarrow> ret (nack (JStr ''unknown'') ''UNAUTHORIZED'' ''Missing or invalid Authorization header'')
      | Some auth \<Rightarrow>
          if auth = [] \<or> \<not> startsWith auth ''Bearer ''
          then ret (nack (JStr ''unknown'') ''UNAUTHORIZED'' ''Missing or invalid Authorization header'')
          else
            let token = index (split_space auth) 1
            in if map_option Secret token \<noteq> env_read G C_GATEWAY_TOKEN_NAME
               then ret (nack (JStr ''unknown'') ''INVALID_TOKEN'' ''Token authentication failed'')
               else
                 (case json_body request of
                    None \<Rightarrow> ret (nack (JStr ''unknown'') ''INVALID_JSON'' ''Malformed JSON body'')
                  | Some body \<Rightarrow>
                      bind (lift (get_prop body ''request_id'')) (\<lambda>request_id.
                      bind (lift (get_prop body ''version'')) (\<lambda>version'.
                      bind (lift (get_prop body ''service'')) (\<lambda>service.
                        let requestId = or_else request_id (JStr ''unknown'');
                            version = or_else version' (JStr ''v1'')
                        in if \<not> truthy_opt service
                           then ret (nack requestId ''INVALID_FIELD'' ''Missing field: service'')
                           else
                             bind (lift (get_prop body ''payload'')) (\<lambda>payload.
                               if \<not> truthy_opt payload
                               then ret (nack requestId ''INVALID_FIELD''
                                           ''Missing required field: payload'')
                               else
                                 bind (lift (ToString version)) (\<lambda>version_text.
                                 bind (lift (String_opt service)) (\<lambda>service_text.
                                   let key = version_text @ ''/'' @ service_text
                                   in bind (resolve P G requestId key) (\<lambda>resolved.
                                        case resolved of
                                          Inl response \<Rightarrow> ret response
                                        | Inr route \<Rightarrow>
                                            bind (inject_table_name route body) (\<lambda>body'.
                                              dispatch P G route body'))))))))))"

section \<open>Reading the model\<close>

text \<open>The property read on a value that is known not to be \<open>null\<close>.\<close>

fun field :: "json \<Rightarrow> string \<Rightarrow> json option" where
  "field (JObj kvs) k = map_of kvs k"
| "field v k = None"

text \<open>The bodies of the requests given to \<open>fetch\<close>, in order.\<close>

fun published_bodies :: "event list \<Rightarrow> json list" where
  "published_bodies [] = []"
| "published_bodies (Fetch req # evs) = out_body req # published_bodies evs"
| "published_bodies (ev # evs) = published_bodies evs"

fun store_queries :: "event list \<Rightarrow> string list" where
  "store_queries [] = []"
| "store_queries (D1_query key # evs) = key # store_queries evs"
| "store_queries (ev # evs) = store_queries evs"

text \<open>
  A platform and two module states for concrete runs: the parser knows two texts, every
  \<open>fetch\<close> is answered with 200; \<open>gateway_no_store\<close> has no store and an environment
  object without any property of its own.
\<close>

definition example_platform :: platform where
  "example_platform =
     \<lparr>JSON_parse = (\<lambda>s. if s = ''{}'' then Some (JObj []) else if s = ''7'' then Some (JNum ''7'') else None),
      encodeURIComponent = (\<lambda>s. s),
      fetch = (\<lambda>req. Some \<lparr>reply_status = 200, reply_text = ''ok''\<rparr>)\<rparr>"

definition gateway_no_store :: gateway where
  "gateway_no_store =
     \<lparr>DA_SERVICE_MAP = template_map, G_DB = None, G_ENV = Map.empty, G_ENV_objects = Map.empty\<rparr>"

text \<open>
  The ways the store can have nothing for a key: the handle is not configured, the query
  rejects, there is no usable record (no result list, an empty one, a first row whose
  \<open>t1\<close> is NULL or empty), or the first row's text does not parse.
\<close>

definition store_unconfigured :: "gateway \<Rightarrow> bool" where
  "store_unconfigured G = (G_DB G = None)"

definition store_fails :: "gateway \<Rightarrow> string \<Rightarrow> bool" where
  "store_fails G key = (case G_DB G of None \<Rightarrow> False | Some db \<Rightarrow> db key = D1_rejects)"

definition store_absent :: "gateway \<Rightarrow> string \<Rightarrow> bool" where
  "store_absent G key =
     (case G_DB G of
        None \<Rightarrow> False
      | Some db \<Rightarrow>
          db key = D1_results None \<or> db key = D1_results (Some [])
          \<or> (case db key of
                D1_results (Some (row # rest)) \<Rightarrow> t1 row = None \<or> t1 row = Some []
              | _ \<Rightarrow> False))"

definition store_malformed :: "platform \<Rightarrow> gateway \<Rightarrow> string \<Rightarrow> bool" where
  "store_malformed P G key =
     (case G_DB G of
        None \<Rightarrow> False
      | Some db \<Rightarrow>
          (case db key of
             D1_results (Some (row # rest)) \<Rightarrow>
               (case t1 row of None \<Rightarrow> False | Some text \<Rightarrow> text \<noteq> [] \<and> JSON_parse P text = None)
           | _ \<Rightarrow> False))"

definition gateway_with_store :: "(string \<Rightarrow> d1_result) \<Rightarrow> gateway" where
  "gateway_with_store db =
     \<lparr>DA_SERVICE_MAP = template_map, G_DB = Some db, G_ENV = [''DA_GATEWAY_TOKEN'' \<mapsto> ''s3cret''],
      G_ENV_objects = [''DB'' \<mapsto> ''[object Object]'']\<rparr>"

text \<open>
  The request passes the gate of lines 72 to 80: the header starts with "Bearer " and
  its second space-separated piece equals the environment's gateway secret.
\<close>

definition authenticated :: "gateway \<Rightarrow> request \<Rightarrow> bool" where
  "authenticated G request =
     (case authorization request of
        None \<Rightarrow> False
      | Some auth \<Rightarrow>
          startsWith auth ''Bearer ''
          \<and> map_option Secret (index (split_space auth) 1) = env_read G C_GATEWAY_TOKEN_NAME)"

text \<open>
  \<open>requestId\<close> and \<open>key\<close> as lines 89 to 91 and 101 compute them from a body; the
  template literal of line 101 converts \<open>version\<close>, then \<open>service\<close>.
\<close>

definition request_id_of :: "json \<Rightarrow> json" where
  "request_id_of body = or_else (field body ''request_id'') (JStr ''unknown'')"

definition route_key :: "json \<Rightarrow> exn + string" where
  "route_key body =
     (case ToString (or_else (field body ''version'') (JStr ''v1'')) of
        Inl e \<Rightarrow> Inl e
      | Inr version_text \<Rightarrow>
          (case String_opt (field body ''service'') of
             Inl e \<Rightarrow> Inl e
           | Inr service_text \<Rightarrow> Inr (version_text @ ''/'' @ service_text)))"

text \<open>Lines 101 to 136 of \<open>handleApi\<close>: what happens once validation has passed.\<close>

definition route_and_dispatch :: "platform \<Rightarrow> gateway \<Rightarrow> json \<Rightarrow> response comp" where
  "route_and_dispatch P G body =
     bind (lift (route_key body)) (\<lambda>key.
     bind (resolve P G (request_id_of body) key) (\<lambda>resolved.
       case resolved of
         Inl response \<Rightarrow> ret response
       | Inr route \<Rightarrow> bind (inject_table_name route body) (\<lambda>body'. dispatch P G route body')))"

text \<open>\<open>String(v)\<close> returns.\<close>

definition converts :: "json option \<Rightarrow> bool" where
  "converts v = (case String_opt v of Inl e \<Rightarrow> False | Inr s \<Rightarrow> True)"

text \<open>
  \<open>handleApi\<close> reaches the switch of line 125 with \<open>route\<close>: the request passes the gate
  and validation, its key is built and resolves to \<open>route\<close>, and the \<open>table_name\<close> step
  returns.
\<close>

definition reaches_dispatch :: "platform \<Rightarrow> gateway \<Rightarrow> request \<Rightarrow> json \<Rightarrow> json \<Rightarrow> bool" where
  "reaches_dispatch P G request body route =
     (authenticated G request \<and> json_body request = Some body
      \<and> truthy_opt (field body ''service'') \<and> truthy_opt (field body ''payload'')
      \<and> (case route_key body of
            Inl e \<Rightarrow> False
          | Inr key \<Rightarrow> fst (resolve P G (request_id_of body) key) = Inr (Inr route))
      \<and> (case fst (inject_table_name route body) of Inl e \<Rightarrow> False | Inr envelope \<Rightarrow> True))"

text \<open>
  The fields of a route from which a handler builds its request have string conversions.
\<close>

definition plain_route :: "json \<Rightarrow> bool" where
  "plain_route route =
     (converts (field route ''token'') \<and> converts (field route ''authKeyEnvName'')
      \<and> converts (field route ''targetUrl'') \<and> converts (field route ''channelName''))"

text \<open>
  The request is dispatched on \<open>route\<close>: \<open>handleApi\<close> reaches the switch with it, and
  the handler of the route can build the request it sends.
\<close>

definition dispatched :: "platform \<Rightarrow> gateway \<Rightarrow> request \<Rightarrow> json \<Rightarrow> json \<Rightarrow> bool" where
  "dispatched P G request body route =
     (reaches_dispatch P G request body route \<and> plain_route route)"

text \<open>
  The payload's properties after the \<open>table_name\<close> step on an object payload, for the
  value of \<open>route.table_name\<close>.
\<close>

fun with_table_name :: "json option \<Rightarrow> (string \<times> json) list \<Rightarrow> (string \<times> json) list" where
  "with_table_name None fs = AList.delete ''table_name'' fs"
| "with_table_name (Some name) fs =
     (if truthy name then AList.update ''table_name'' name fs else AList.delete ''table_name'' fs)"

text \<open>
  The credential of a route in the words of the specification: \<open>route.token\<close> if it is
  non-empty, else what the environment has under the name \<open>route.authKeyEnvName\<close>. The
  name is converted to a property key, which can throw.
\<close>

definition credential :: "gateway \<Rightarrow> json \<Rightarrow> exn + route_token" where
  "credential G route =
     (if truthy_opt (field route ''token'') then Inr (From_route (field route ''token''))
      else if truthy_opt (field route ''authKeyEnvName'')
           then (case String_opt (field route ''authKeyEnvName'') of
                   Inl e \<Rightarrow> Inl e
                 | Inr name \<Rightarrow> Inr (From_env (env_read G name)))
           else Inr (From_route (field route ''token'')))"

text \<open>The message-bus body in the words of claim C1, from the payload of the envelope.\<close>

definition claimed_bus_body :: "json \<Rightarrow> json" where
  "claimed_bus_body payload =
     JArr [JObj [(''name'', or_else (field payload ''action'') (JStr ''gateway-event'')),
                 (''data'', payload)]]"

text \<open>Two more module states for concrete runs.\<close>

definition example_gateway :: gateway where
  "example_gateway =
     \<lparr>DA_SERVICE_MAP = template_map, G_DB = None,
      G_ENV = [''DA_GATEWAY_TOKEN'' \<mapsto> ''s3cret'', ''ABLY_API_KEY'' \<mapsto> ''app.key:secret''],
      G_ENV_objects = Map.empty\<rparr>"

definition orders_gateway :: gateway where
  "orders_gateway =
     \<lparr>DA_SERVICE_MAP =
        [''v1/orders'' \<mapsto> [(''type'', JStr ''REST''),
                            (''targetUrl'', JStr ''https://orders.example.com''),
                            (''token'', JStr ''T1''),
                            (''authKeyEnvName'', JStr ''ORDERS_KEY''),
                            (''table_name'', JStr ''orders'')]],
      G_DB = Some (\<lambda>k. D1_results (Some [Row (Some ''{}'')])),
      G_ENV = [''DA_GATEWAY_TOKEN'' \<mapsto> ''s3cret'', ''ORDERS_KEY'' \<mapsto> ''K2''],
      G_ENV_objects = [''DB'' \<mapsto> ''[object Object]'']\<rparr>"

text \<open>
  The POST of \<open>handleRest\<close> for a URL, an optional Authorization header and a body, and
  the statement that \<open>handleRest\<close> builds this request and gives it to \<open>fetch\<close>, once.
\<close>

definition rest_request :: "string \<Rightarrow> string option \<Rightarrow> json \<Rightarrow> out_request" where
  "rest_request url header bodyJson =
     \<lparr>out_url = url,
      out_method = ''POST'',
      out_headers =
        (''Content-Type'', ''application/json'')
          # (case header of None \<Rightarrow> [] | Some a \<Rightarrow> [(''Authorization'', a)]),
      out_body = bodyJson\<rparr>"

definition rest_sends :: "platform \<Rightarrow> gateway \<Rightarrow> json \<Rightarrow> json \<Rightarrow> out_request \<Rightarrow> bool" where
  "rest_sends P G route bodyJson req =
     (handleRest_request G route bodyJson = (Inr req, [])
      \<and> snd (handleRest P G route bodyJson) = [Fetch req])"

section \<open>Laws of the effect combinators\<close>

lemma bind_ret: "bind (ret v) f = f v"
  by (cases "f v") (simp add: bind_def ret_def)

lemma bind_lift_Inr: "bind (lift (Inr v)) f = f v"
  by (cases "f v") (simp add: bind_def lift_def)

lemma bind_lift_Inl: "bind (lift (Inl e)) f = (Inl e, [])"
  by (simp add: bind_def lift_def)

lemma bind_throw: "bind (throw e) f = (Inl e, [])"
  by (simp add: bind_def throw_def)

lemma bind_emit: "bind (emit ev) f = (fst (f ()), ev # snd (f ()))"
  by (cases "f ()") (simp add: bind_def emit_def)

lemma get_prop_field: "v \<noteq> JNull \<Longrightarrow> get_prop v k = Inr (field v k)"
  by (cases v) simp_all

lemma bind_pure: "bind (Inr v, []) f = f v"
  by (cases "f v") (simp add: bind_def)

lemma bind_fail: "bind (Inl e, t) f = (Inl e, t)"
  by (simp add: bind_def)

lemma try_catch_fst:
  "fst (try_catch m h) = (case fst m of Inl e \<Rightarrow> fst (h e) | Inr v \<Rightarrow> Inr v)"
  by (cases m) (auto simp add: try_catch_def split: sum.splits prod.splits)

lemma truthy_not_null: "truthy v \<Longrightarrow> v \<noteq> JNull"
  by auto

lemma truthy_opt_falsy:
  "\<not> truthy_opt v \<longleftrightarrow> v \<in> {None, Some JNull, Some (JBool False), Some (JNum ''0''), Some (JStr [])}"
proof (cases v)
  case None
  then show ?thesis by simp
next
  case (Some j)
  then show ?thesis by (cases j) auto
qed

lemmas comp_defs = bind_def ret_def throw_def lift_def emit_def try_catch_def

section \<open>The inbound token\<close>

lemma split_space_nonempty: "split_space s \<noteq> []"
  by (induction s) (auto split: list.splits)

lemma startsWith_append: "startsWith s p \<longleftrightarrow> (\<exists>rest. s = p @ rest)"
  by (induction s p rule: startsWith.induct) auto

lemma split_space_Bearer: "split_space (''Bearer '' @ rest) = ''Bearer'' # split_space rest"
  using split_space_nonempty [of rest] by (cases "split_space rest") simp_all

text \<open>
  After the prefix check, \<open>auth.split(" ")[1]\<close> is a string, never \<open>undefined\<close>.
\<close>

lemma bearer_token_defined:
  assumes "startsWith auth ''Bearer ''"
  shows "auth \<noteq> [] \<and> (\<exists>t. index (split_space auth) 1 = Some t)"
proof -
  from assms obtain rest where a: "auth = ''Bearer '' @ rest"
    using startsWith_append by blast
  obtain w ws where "split_space rest = w # ws"
    using split_space_nonempty [of rest] by (cases "split_space rest") auto
  then have "index (split_space auth) 1 = Some w"
    unfolding a split_space_Bearer by (simp add: index_def)
  with a show ?thesis by auto
qed

lemma env_read_no_secret: "G_ENV G name = None \<Longrightarrow> env_read G name \<noteq> Some (Secret s)"
  by (auto simp add: env_read_def split: option.splits)

text \<open>
  Claim C10. When the environment has no binding named DA_GATEWAY_TOKEN, every request
  whose Authorization header starts with "Bearer " gets the INVALID_TOKEN nack with status
  400, and nothing else happens: the trace is empty, so no store query and no fetch is
  made.
\<close>

theorem missing_gateway_secret_fails_closed:
  assumes "G_ENV G C_GATEWAY_TOKEN_NAME = None"
    and "authorization request = Some auth"
    and "startsWith auth ''Bearer ''"
  shows "handleApi P G request =
           (Inr (JsonResponse 400
                   (JObj [(''type'', JStr ''nack''), (''request_id'', JStr ''unknown''),
                          (''payload'', JObj [(''status'', JStr ''error''),
                                              (''code'', JStr ''INVALID_TOKEN''),
                                              (''message'', JStr ''Token authentication failed'')])])),
            [])"
proof -
  from bearer_token_defined [OF assms(3)] obtain t
    where ne: "auth \<noteq> []" and t: "index (split_space auth) 1 = Some t" by blast
  from assms(1) have "map_option Secret (Some t) \<noteq> env_read G C_GATEWAY_TOKEN_NAME"
    using env_read_no_secret [of G C_GATEWAY_TOKEN_NAME t] by auto
  then show ?thesis
    using assms ne t by (simp add: handleApi_def ret_def nack_def jsonResponse_def)
qed

theorem missing_gateway_secret_fails_closed_witness:
  "handleApi example_platform gateway_no_store
     \<lparr>authorization = Some ''Bearer letmein'',
      json_body = Some (JObj [(''version'', JStr ''v99''), (''service'', JStr ''demorest''),
                              (''payload'', JObj [])])\<rparr> =
   (Inr (JsonResponse 400
           (JObj [(''type'', JStr ''nack''), (''request_id'', JStr ''unknown''),
                  (''payload'', JObj [(''status'', JStr ''error''),
                                      (''code'', JStr ''INVALID_TOKEN''),
                                      (''message'', JStr ''Token authentication failed'')])])),
    [])"
  by (rule missing_gateway_secret_fails_closed [where auth = "''Bearer letmein''"])
     (simp_all add: gateway_no_store_def)

section \<open>The route store and route resolution\<close>

lemma findRouteFromDB_returns: "\<exists>v t. findRouteFromDB P G key = (Inr v, t)"
  by (auto simp add: findRouteFromDB_def query_route_def comp_defs
      split: option.splits d1_result.splits list.splits)

text \<open>
  Claim C8. \<open>findRouteFromDB\<close> never raises to its caller: it always returns a value.
  When the store handle is not configured it returns \<open>null\<close> at once with an empty
  trace, so without a query; when the query rejects, finds no usable record or finds a
  text that does not parse, it returns \<open>null\<close> as well.
\<close>

theorem findRouteFromDB_never_raises:
  "(\<exists>v. fst (findRouteFromDB P G key) = Inr v)
   \<and> (store_unconfigured G \<longrightarrow> findRouteFromDB P G key = (Inr JNull, []))
   \<and> (store_fails G key \<or> store_absent G key \<or> store_malformed P G key
        \<longrightarrow> fst (findRouteFromDB P G key) = Inr JNull)"
proof (intro conjI impI)
  show "\<exists>v. fst (findRouteFromDB P G key) = Inr v"
    using findRouteFromDB_returns [of P G key] by auto
next
  assume "store_unconfigured G"
  then show "findRouteFromDB P G key = (Inr JNull, [])"
    by (simp add: store_unconfigured_def findRouteFromDB_def ret_def)
next
  assume "store_fails G key \<or> store_absent G key \<or> store_malformed P G key"
  then show "fst (findRouteFromDB P G key) = Inr JNull"
    by (auto simp add: store_fails_def store_absent_def store_malformed_def
        findRouteFromDB_def query_route_def comp_defs
        split: option.splits d1_result.splits list.splits)
qed

theorem findRouteFromDB_never_raises_witness:
  "findRouteFromDB example_platform gateway_no_store ''v1/orders'' = (Inr JNull, [])
   \<and> fst (findRouteFromDB example_platform (gateway_with_store (\<lambda>k. D1_rejects)) ''v1/orders'') = Inr JNull
   \<and> fst (findRouteFromDB example_platform
             (gateway_with_store (\<lambda>k. D1_results (Some [Row (Some ''{not json'')]))) ''v1/orders'') = Inr JNull"
proof -
  have a: "store_unconfigured gateway_no_store"
    by (simp add: store_unconfigured_def gateway_no_store_def)
  have b: "store_fails (gateway_with_store (\<lambda>k. D1_rejects)) ''v1/orders''"
    by (simp add: store_fails_def gateway_with_store_def)
  have c: "store_malformed example_platform
             (gateway_with_store (\<lambda>k. D1_results (Some [Row (Some ''{not json'')]))) ''v1/orders''"
    by (simp add: store_malformed_def gateway_with_store_def example_platform_def)
  from a b c
    findRouteFromDB_never_raises [of example_platform gateway_no_store "''v1/orders''"]
    findRouteFromDB_never_raises [of example_platform "gateway_with_store (\<lambda>k. D1_rejects)" "''v1/orders''"]
    findRouteFromDB_never_raises [of example_platform
      "gateway_with_store (\<lambda>k. D1_results (Some [Row (Some ''{not json'')]))" "''v1/orders''"]
  show ?thesis by blast
qed

lemma resolve_returns: "\<exists>r t. resolve P G requestId key = (Inr r, t)"
proof -
  obtain v t where "findRouteFromDB P G key = (Inr v, t)"
    using findRouteFromDB_returns by blast
  then show ?thesis
    by (auto simp add: resolve_def store_fallback_def comp_defs split: option.splits)
qed

lemma findRouteFromDB_frame:
  assumes "G_DB G' = G_DB G" "JSON_parse P' = JSON_parse P"
  shows "findRouteFromDB P' G' key = findRouteFromDB P G key"
proof -
  have "query_route P' db key = query_route P db key" for db
    using assms(2) by (simp add: query_route_def split: d1_result.splits option.splits list.splits)
  with assms(1) show ?thesis by (simp add: findRouteFromDB_def split: option.splits)
qed

lemma resolve_frame:
  assumes "DA_SERVICE_MAP G' = DA_SERVICE_MAP G" "G_DB G' = G_DB G" "JSON_parse P' = JSON_parse P"
  shows "resolve P' G' requestId key = resolve P G requestId key"
proof -
  have "store_fallback P' G' requestId key = store_fallback P G requestId key"
    using findRouteFromDB_frame [OF assms(2,3)] by (simp add: store_fallback_def)
  with assms(1) show ?thesis by (simp add: resolve_def split: option.splits)
qed

lemma resolve_route_any_id:
  "fst (resolve P G requestId key) = Inr (Inr route) \<longleftrightarrow>
   fst (resolve P G requestId' key) = Inr (Inr route)"
proof -
  obtain v t where "findRouteFromDB P G key = (Inr v, t)"
    using findRouteFromDB_returns by blast
  then show ?thesis
    by (auto simp add: resolve_def store_fallback_def comp_defs split: option.splits)
qed

text \<open>
  Claim C9. Resolution is a function of the static table, the store state and the key:
  two runs that see the same table and the same store (whatever else differs: the
  environment bindings, the behaviour of fetch) return the same result with the same
  trace; a second resolution run after a first one returns what the first returned; and
  for two requests with different request ids the two runs find the same route, or both
  find none.
\<close>

theorem resolve_idempotent:
  assumes "DA_SERVICE_MAP G' = DA_SERVICE_MAP G"
    and "G_DB G' = G_DB G"
    and "JSON_parse P' = JSON_parse P"
  shows "resolve P' G' requestId key = resolve P G requestId key
         \<and> fst (bind (resolve P G requestId key) (\<lambda>first.
                 bind (resolve P' G' requestId key) (\<lambda>second. ret (first = second)))) = Inr True
         \<and> (\<forall>route. fst (resolve P G requestId key) = Inr (Inr route) \<longleftrightarrow>
                      fst (resolve P' G' requestId' key) = Inr (Inr route))"
proof -
  have same: "resolve P' G' r key = resolve P G r key" for r
    using assms by (rule resolve_frame)
  obtain r t where "resolve P G requestId key = (Inr r, t)"
    using resolve_returns by blast
  with same [of requestId]
  have twice: "fst (bind (resolve P G requestId key) (\<lambda>first.
                 bind (resolve P' G' requestId key) (\<lambda>second. ret (first = second)))) = Inr True"
    by (simp add: comp_defs)
  have any: "\<forall>route. fst (resolve P G requestId key) = Inr (Inr route) \<longleftrightarrow>
                      fst (resolve P' G' requestId' key) = Inr (Inr route)"
    unfolding same [of requestId'] using resolve_route_any_id [of P G requestId key _ requestId']
    by blast
  from same [of requestId] twice any show ?thesis by blast
qed

theorem resolve_idempotent_witness:
  "resolve (example_platform\<lparr>fetch := (\<lambda>req. None)\<rparr>)
           ((gateway_with_store (\<lambda>k. D1_results (Some [Row (Some ''{}'')])))\<lparr>G_ENV := [''K'' \<mapsto> ''v'']\<rparr>)
           (JStr ''r1'') ''v1/orders''
     = resolve example_platform (gateway_with_store (\<lambda>k. D1_results (Some [Row (Some ''{}'')])))
           (JStr ''r1'') ''v1/orders''
   \<and> fst (bind (resolve example_platform
                  (gateway_with_store (\<lambda>k. D1_results (Some [Row (Some ''{}'')])))
                  (JStr ''r1'') ''v1/orders'') (\<lambda>first.
           bind (resolve (example_platform\<lparr>fetch := (\<lambda>req. None)\<rparr>)
                   ((gateway_with_store (\<lambda>k. D1_results (Some [Row (Some ''{}'')])))\<lparr>G_ENV := [''K'' \<mapsto> ''v'']\<rparr>)
                   (JStr ''r1'') ''v1/orders'') (\<lambda>second. ret (first = second)))) = Inr True"
proof -
  let ?P = "example_platform"
  let ?G = "gateway_with_store (\<lambda>k. D1_results (Some [Row (Some ''{}'')]))"
  have "DA_SERVICE_MAP (?G\<lparr>G_ENV := [''K'' \<mapsto> ''v'']\<rparr>) = DA_SERVICE_MAP ?G"
    and "G_DB (?G\<lparr>G_ENV := [''K'' \<mapsto> ''v'']\<rparr>) = G_DB ?G"
    and "JSON_parse (?P\<lparr>fetch := (\<lambda>req. None)\<rparr>) = JSON_parse ?P"
    by simp_all
  from resolve_idempotent [OF this, of "JStr ''r1''" "''v1/orders''"] show ?thesis by blast
qed

text \<open>
  Claim C5. A key of the static table resolves to its entry with an empty trace, whatever
  the store is (also unconfigured or rejecting every query); a resolution that queries the
  store is one whose key the static table does not have, and then the store is queried
  once, with that key; and when the key is in neither, the result is the NO_ROUTE nack
  with status 400, the same response for every cause.
\<close>

theorem static_table_first:
  "(DA_SERVICE_MAP G key = Some entry \<longrightarrow>
       resolve P G requestId key = (Inr (Inr (JObj entry)), []))
   \<and> (store_queries (snd (resolve P G requestId key)) \<noteq> [] \<longrightarrow> DA_SERVICE_MAP G key = None)
   \<and> (DA_SERVICE_MAP G key = None \<and> \<not> store_unconfigured G \<longrightarrow>
        store_queries (snd (resolve P G requestId key)) = [key])
   \<and> (DA_SERVICE_MAP G key = None \<and>
        (store_unconfigured G \<or> store_fails G key \<or> store_absent G key \<or> store_malformed P G key) \<longrightarrow>
       fst (resolve P G requestId key) =
         Inr (Inl (JsonResponse 400
                (JObj [(''type'', JStr ''nack''), (''request_id'', requestId),
                       (''payload'', JObj [(''status'', JStr ''error''), (''code'', JStr ''NO_ROUTE''),
                                           (''message'', JStr (''No route found for '' @ key))])]))))"
proof (intro conjI impI)
  assume "DA_SERVICE_MAP G key = Some entry"
  then show "resolve P G requestId key = (Inr (Inr (JObj entry)), [])"
    by (simp add: resolve_def ret_def)
next
  assume "store_queries (snd (resolve P G requestId key)) \<noteq> []"
  then show "DA_SERVICE_MAP G key = None"
    by (cases "DA_SERVICE_MAP G key") (simp_all add: resolve_def ret_def)
next
  assume "DA_SERVICE_MAP G key = None \<and> \<not> store_unconfigured G"
  then show "store_queries (snd (resolve P G requestId key)) = [key]"
    by (auto simp add: store_unconfigured_def resolve_def store_fallback_def
        findRouteFromDB_def query_route_def comp_defs
        split: option.splits d1_result.splits list.splits)
next
  assume a: "DA_SERVICE_MAP G key = None \<and>
        (store_unconfigured G \<or> store_fails G key \<or> store_absent G key \<or> store_malformed P G key)"
  then have "fst (findRouteFromDB P G key) = Inr JNull"
    using findRouteFromDB_returns
    by (auto simp add: store_unconfigured_def store_fails_def store_absent_def store_malformed_def
        findRouteFromDB_def query_route_def comp_defs
        split: option.splits d1_result.splits list.splits)
  then obtain t where "findRouteFromDB P G key = (Inr JNull, t)"
    by (cases "findRouteFromDB P G key") simp
  with a show "fst (resolve P G requestId key) =
         Inr (Inl (JsonResponse 400
                (JObj [(''type'', JStr ''nack''), (''request_id'', requestId),
                       (''payload'', JObj [(''status'', JStr ''error''), (''code'', JStr ''NO_ROUTE''),
                                           (''message'', JStr (''No route found for '' @ key))])])))"
    by (simp add: resolve_def store_fallback_def comp_defs nack_def jsonResponse_def)
qed

theorem static_table_first_witness:
  "resolve example_platform (gateway_with_store (\<lambda>k. D1_rejects)) (JStr ''r1'') ''v99/demorest'' =
     (Inr (Inr (JObj [(''type'', JStr ''REST''),
                      (''targetUrl'', JStr ''https://v1-users-api.example.com''),
                      (''authKeyEnvName'', JStr ''REST_API_BEARER_TOKEN'')])), [])
   \<and> fst (resolve example_platform (gateway_with_store (\<lambda>k. D1_rejects)) (JStr ''r1'') ''v1/orders'') =
         Inr (Inl (JsonResponse 400
                (JObj [(''type'', JStr ''nack''), (''request_id'', JStr ''r1''),
                       (''payload'', JObj [(''status'', JStr ''error''), (''code'', JStr ''NO_ROUTE''),
                                           (''message'', JStr (''No route found for '' @ ''v1/orders''))])])))"
proof -
  have hit: "DA_SERVICE_MAP (gateway_with_store (\<lambda>k. D1_rejects)) ''v99/demorest'' =
      Some [(''type'', JStr ''REST''),
            (''targetUrl'', JStr ''https://v1-users-api.example.com''),
            (''authKeyEnvName'', JStr ''REST_API_BEARER_TOKEN'')]"
    by (simp add: gateway_with_store_def template_map_def)
  have miss: "DA_SERVICE_MAP (gateway_with_store (\<lambda>k. D1_rejects)) ''v1/orders'' = None"
    by (simp add: gateway_with_store_def template_map_def)
  have down: "store_fails (gateway_with_store (\<lambda>k. D1_rejects)) ''v1/orders''"
    by (simp add: store_fails_def gateway_with_store_def)
  from hit miss down
    static_table_first [of "gateway_with_store (\<lambda>k. D1_rejects)" "''v99/demorest''" _
      example_platform "JStr ''r1''"]
    static_table_first [of "gateway_with_store (\<lambda>k. D1_rejects)" "''v1/orders''" _
      example_platform "JStr ''r1''"]
  show ?thesis by blast
qed

section \<open>Validation\<close>

lemma authenticated_header:
  assumes "authenticated G request"
  obtains auth where "authorization request = Some auth" "auth \<noteq> []" "startsWith auth ''Bearer ''"
    "map_option Secret (index (split_space auth) 1) = env_read G C_GATEWAY_TOKEN_NAME"
  using assms bearer_token_defined
  by (auto simp add: authenticated_def split: option.splits)

lemma handleApi_validated:
  assumes "authenticated G request"
    and "json_body request = Some body"
    and "truthy_opt (field body ''service'')"
  shows "handleApi P G request =
           (if \<not> truthy_opt (field body ''payload'')
            then ret (nack (request_id_of body) ''INVALID_FIELD'' ''Missing required field: payload'')
            else route_and_dispatch P G body)"
proof -
  from assms(1) obtain auth where a: "authorization request = Some auth" "auth \<noteq> []"
      "startsWith auth ''Bearer ''"
      "map_option Secret (index (split_space auth) 1) = env_read G C_GATEWAY_TOKEN_NAME"
    by (rule authenticated_header)
  from assms(3) have nn: "body \<noteq> JNull" by (cases body) auto
  show ?thesis
    using a assms(2,3)
    by (cases "ToString (or_else (field body ''version'') (JStr ''v1''))";
        cases "String_opt (field body ''service'')")
       (simp_all add: handleApi_def get_prop_field [OF nn] bind_lift_Inr bind_lift_Inl
          route_and_dispatch_def request_id_of_def route_key_def)
qed

section \<open>The \<open>table_name\<close> step\<close>

lemma map_of_None_iff: "map_of fs k = None \<longleftrightarrow> k \<notin> fst ` set fs"
  by (simp add: map_of_eq_None_iff)

lemma inject_object:
  assumes "route \<noteq> JNull" and "map_of kvs ''payload'' = Some (JObj fs)"
  shows "inject_table_name route (JObj kvs) =
           (Inr (JObj (AList.update ''payload'' (JObj (with_table_name (field route ''table_name'') fs)) kvs)), [])"
proof (cases "truthy_opt (field route ''table_name'')")
  case True
  then obtain name where "field route ''table_name'' = Some name" "truthy name"
    by (cases "field route ''table_name''") auto
  then show ?thesis
    using assms
    by (simp add: inject_table_name_def get_prop_field bind_lift_Inr set_payload_def
        try_catch_def ret_def)
next
  case False
  have strip: "strip_table_name (JObj kvs) =
      (Inr (JObj (AList.update ''payload'' (JObj (AList.delete ''table_name'' fs)) kvs)), [])"
  proof (cases "map_of fs ''table_name''")
    case None
    then have "AList.delete ''table_name'' fs = fs"
      by (simp add: map_of_None_iff)
    moreover have "AList.update ''payload'' (JObj fs) kvs = kvs"
      using assms(2) by (rule update_triv)
    ultimately show ?thesis
      using assms(2) None
      by (simp add: strip_table_name_def bind_lift_Inr ret_def)
  next
    case (Some v)
    then show ?thesis
      using assms(2)
      by (simp add: strip_table_name_def bind_lift_Inr ret_def set_payload_def)
  qed
  from False have w: "with_table_name (field route ''table_name'') fs = AList.delete ''table_name'' fs"
    by (cases "field route ''table_name''") auto
  from False show ?thesis
    using assms(1) strip w
    by (cases "field route ''table_name''")
       (simp_all add: inject_table_name_def get_prop_field bind_lift_Inr try_catch_def)
qed

lemma inject_array:
  assumes "route \<noteq> JNull" and "map_of kvs ''payload'' = Some (JArr xs)"
  shows "inject_table_name route (JObj kvs) = (Inr (JObj kvs), [])"
proof -
  have u: "AList.update ''payload'' (JArr xs) kvs = kvs"
    using assms(2) by (rule update_triv)
  have strip: "strip_table_name (JObj kvs) = (Inr (JObj kvs), [])"
    using assms(2) by (simp add: strip_table_name_def bind_lift_Inr ret_def)
  show ?thesis
    using assms u strip
    by (cases "field route ''table_name''")
       (simp_all add: inject_table_name_def get_prop_field bind_lift_Inr try_catch_def
          set_payload_def ret_def)
qed

text \<open>
  On a primitive payload the step throws and its handler runs: the warning is logged when
  \<open>route.targetUrl\<close> has a string conversion, and the handler throws when it has none.
\<close>

lemma inject_primitive_caught:
  assumes "route \<noteq> JNull" and "map_of kvs ''payload'' = Some payload"
    and "\<forall>fs. payload \<noteq> JObj fs" and "\<forall>xs. payload \<noteq> JArr xs"
  shows "inject_table_name route (JObj kvs) =
           (case String_opt (field route ''targetUrl'') of
              Inl e \<Rightarrow> (Inl e, [])
            | Inr url \<Rightarrow> (Inr (JObj kvs), [Console_warn]))"
proof -
  have a: "assign (Some payload) ''table_name'' v = Inl TypeError" for v
    using assms(3,4) by (cases payload) auto
  have h: "has_property ''table_name'' (Some payload) = Inl TypeError"
    using assms(3,4) by (cases payload) auto
  have strip: "strip_table_name (JObj kvs) = (Inl TypeError, [])"
    using assms(2) h by (simp add: strip_table_name_def bind_lift_Inr bind_lift_Inl)
  have m: "bind (lift (get_prop route ''table_name'')) (\<lambda>table_name.
          case table_name of
            None \<Rightarrow> strip_table_name (JObj kvs)
          | Some name \<Rightarrow>
              if truthy name
              then bind (lift (get_prop (JObj kvs) ''payload'')) (\<lambda>payload.
                   bind (lift (assign payload ''table_name'' name)) (\<lambda>payload'.
                     ret (set_payload (JObj kvs) payload')))
              else strip_table_name (JObj kvs)) = (Inl TypeError, [])"
    using assms(1,2) a strip
    by (cases "field route ''table_name''")
       (simp_all add: get_prop_field bind_lift_Inr bind_lift_Inl)
  show ?thesis
    unfolding inject_table_name_def m
    using assms(1)
    by (cases "String_opt (field route ''targetUrl'')")
       (simp_all add: try_catch_def get_prop_field bind_lift_Inr bind_lift_Inl bind_emit ret_def)
qed

lemma inject_primitive:
  assumes "route \<noteq> JNull" and "map_of kvs ''payload'' = Some payload"
    and "\<forall>fs. payload \<noteq> JObj fs" and "\<forall>xs. payload \<noteq> JArr xs"
    and "converts (field route ''targetUrl'')"
  shows "inject_table_name route (JObj kvs) = (Inr (JObj kvs), [Console_warn])"
  using inject_primitive_caught [OF assms(1-4)] assms(5)
  by (simp add: converts_def split: sum.splits)

lemma inject_result:
  assumes "route \<noteq> JNull" and "map_of kvs ''payload'' = Some payload"
    and "inject_table_name route (JObj kvs) = (Inr envelope, tr)"
  shows "\<exists>kvs'. envelope = JObj kvs' \<and> published_bodies tr = []
           \<and> (\<forall>k. k \<noteq> ''payload'' \<longrightarrow> map_of kvs' k = map_of kvs k)"
proof (cases "(\<exists>fs. payload = JObj fs) \<or> (\<exists>xs. payload = JArr xs)")
  case True
  then show ?thesis
  proof
    assume "\<exists>fs. payload = JObj fs"
    then obtain fs where "map_of kvs ''payload'' = Some (JObj fs)" using assms(2) by auto
    from inject_object [OF assms(1) this] assms(3) show ?thesis
      by (auto simp add: update_conv')
  next
    assume "\<exists>xs. payload = JArr xs"
    then obtain xs where "map_of kvs ''payload'' = Some (JArr xs)" using assms(2) by auto
    from inject_array [OF assms(1) this] assms(3) show ?thesis by auto
  qed
next
  case False
  then have "\<forall>fs. payload \<noteq> JObj fs" "\<forall>xs. payload \<noteq> JArr xs" by auto
  from inject_primitive_caught [OF assms(1,2) this] assms(3) show ?thesis
    by (auto split: sum.splits)
qed

section \<open>The requests the handlers send\<close>

lemma published_bodies_append:
  "published_bodies (t @ u) = published_bodies t @ published_bodies u"
  by (induction t rule: published_bodies.induct) simp_all

lemma findRouteFromDB_no_fetch: "published_bodies (snd (findRouteFromDB P G key)) = []"
  by (auto simp add: findRouteFromDB_def query_route_def comp_defs
      split: option.splits d1_result.splits list.splits)

lemma resolve_route:
  assumes "resolve P G requestId key = (Inr (Inr route), t)"
  shows "truthy route \<and> published_bodies t = []"
proof (cases "DA_SERVICE_MAP G key")
  case None
  obtain v t' where f: "findRouteFromDB P G key = (Inr v, t')"
    using findRouteFromDB_returns by blast
  with findRouteFromDB_no_fetch [of P G key] have "published_bodies t' = []" by simp
  with assms None f show ?thesis
    by (auto simp add: resolve_def store_fallback_def comp_defs split: if_splits)
next
  case (Some entry)
  with assms show ?thesis by (auto simp add: resolve_def ret_def)
qed

lemma converts_Inr: "converts v \<Longrightarrow> \<exists>s. String_opt v = Inr s"
  by (cases "String_opt v") (simp_all add: converts_def)

lemma String_token_From_env: "\<exists>s. String_token (From_env v) = Inr s"
proof (cases v)
  case None
  then show ?thesis by simp
next
  case (Some w)
  then show ?thesis by (cases w) simp_all
qed

lemma plain_credential:
  assumes "plain_route route"
  obtains c t where "credential G route = Inr c" "String_token c = Inr t"
proof -
  from assms obtain tt nt where tt: "String_opt (field route ''token'') = Inr tt"
    and nt: "String_opt (field route ''authKeyEnvName'') = Inr nt"
    using converts_Inr unfolding plain_route_def by blast
  show ?thesis
  proof (cases "truthy_opt (field route ''token'') \<or> \<not> truthy_opt (field route ''authKeyEnvName'')")
    case True
    then have "credential G route = Inr (From_route (field route ''token''))"
      by (auto simp add: credential_def)
    with tt that show ?thesis by simp
  next
    case False
    then have c: "credential G route = Inr (From_env (env_read G nt))"
      using nt by (simp add: credential_def)
    obtain s where "String_token (From_env (env_read G nt)) = Inr s"
      using String_token_From_env by blast
    with c that show ?thesis by simp
  qed
qed

lemma route_token_eq:
  assumes "route \<noteq> JNull"
  shows "bind (lift (get_prop route ''token'')) (\<lambda>token.
     bind (if \<not> truthy_opt token \<or> token = Some (JStr [])
           then bind (lift (get_prop route ''authKeyEnvName'')) (\<lambda>authKeyEnvName.
                  if truthy_opt authKeyEnvName
                  then bind (lift (String_opt authKeyEnvName)) (\<lambda>name.
                         ret (From_env (env_read G name)))
                  else ret (From_route token))
           else ret (From_route token)) f) =
     bind (lift (credential G route)) f"
proof (cases "truthy_opt (field route ''token'')")
  case True
  then have "field route ''token'' \<noteq> Some (JStr [])" by auto
  with True show ?thesis
    using assms by (simp add: get_prop_field bind_lift_Inr bind_ret credential_def)
next
  case False
  then show ?thesis
    using assms
    by (cases "String_opt (field route ''authKeyEnvName'')")
       (simp_all add: get_prop_field bind_lift_Inr bind_lift_Inl bind_ret bind_fail credential_def)
qed

lemma handleRest_request_eq:
  assumes "route \<noteq> JNull"
    and "credential G route = Inr c"
    and "truthy_token c \<Longrightarrow> String_token c = Inr t"
    and "String_opt (field route ''targetUrl'') = Inr url"
  shows "handleRest_request G route bodyJson =
           (Inr \<lparr>out_url = url,
                 out_method = ''POST'',
                 out_headers =
                   (''Content-Type'', ''application/json'')
                     # (if truthy_token c then [(''Authorization'', ''Bearer '' @ t)] else []),
                 out_body = bodyJson\<rparr>, [])"
  unfolding handleRest_request_def route_token_eq [OF assms(1)]
  using assms
  by (simp add: get_prop_field bind_lift_Inr bind_pure ret_def)

lemma handleAbly_request_eq:
  assumes "route \<noteq> JNull" and "bodyJson \<noteq> JNull"
    and "credential G route = Inr c"
    and "String_token c = Inr t"
    and "String_opt (field route ''channelName'') = Inr channel"
  shows "handleAbly_request P G route bodyJson =
           (Inr \<lparr>out_url = ABLY_PUBLISH_BASE_URL @ ''/'' @ encodeURIComponent P channel @ ''/messages'',
                 out_method = ''POST'',
                 out_headers =
                   [(''Authorization'', ''Basic '' @ btoa t),
                    (''Content-Type'', ''application/json'')],
                 out_body = JArr [JObj [(''name'', or_else (field bodyJson ''action'') (JStr ''gateway-event'')),
                                        (''data'', bodyJson)]]\<rparr>, [])"
  unfolding handleAbly_request_def route_token_eq [OF assms(1)]
  using assms
  by (simp add: get_prop_field bind_lift_Inr ret_def)

lemma do_fetch_trace: "snd (do_fetch P req) = [Fetch req]"
  by (simp add: do_fetch_def comp_defs split: option.splits)

lemma handleRest_trace:
  assumes "handleRest_request G route bodyJson = (Inr req, [])"
  shows "snd (handleRest P G route bodyJson) = [Fetch req]"
  using assms by (simp add: handleRest_def do_fetch_def comp_defs split: option.splits)

lemma handleAbly_trace:
  assumes "route \<noteq> JNull" and "handleAbly_request P G route bodyJson = (Inr req, [])"
  shows "snd (handleAbly P G route bodyJson) = [Fetch req]"
  using assms
  by (cases "String_opt (field route ''channelName'')")
     (simp_all add: handleAbly_def do_fetch_def get_prop_field comp_defs split: option.splits)

lemma try_catch_trace:
  assumes "snd m = t" and "\<And>e. published_bodies (snd (h e)) = []"
  shows "published_bodies (snd (try_catch m h)) = published_bodies t"
proof (cases m)
  case (Pair r t')
  with assms(1) have "t' = t" by simp
  show ?thesis
  proof (cases r)
    case (Inl e)
    obtain r' u where h: "h e = (r', u)" by (cases "h e")
    with assms(2) [of e] have "published_bodies u = []" by simp
    with Pair Inl h \<open>t' = t\<close> show ?thesis
      by (simp add: try_catch_def published_bodies_append)
  next
    case (Inr v)
    with Pair \<open>t' = t\<close> show ?thesis by (simp add: try_catch_def)
  qed
qed

lemma dispatch_handler_quiet:
  "published_bodies (snd (bind (lift (get_prop body ''type'')) (\<lambda>body_type.
      bind (lift (String_opt body_type)) (\<lambda>type_text.
      bind (emit Console_error) (\<lambda>_. ret (jsonError ''Gateway processing failed'' 500)))))) = []"
proof (cases "get_prop body ''type''")
  case (Inl e)
  then show ?thesis by (simp add: comp_defs)
next
  case (Inr v)
  then show ?thesis by (cases "String_opt v") (simp_all add: comp_defs)
qed

lemma dispatch_unsupported:
  assumes "route \<noteq> JNull" and "body \<noteq> JNull"
    and "field route ''type'' \<noteq> Some (JStr ''REST'')"
    and "field route ''type'' \<noteq> Some (JStr ''ABLY'')"
  shows "dispatch P G route body =
           (case String_opt (field body ''type'') of
              Inl e \<Rightarrow> (Inl e, [])
            | Inr type_text \<Rightarrow>
                (Inr (jsonError (''Unsupported service type: '' @ type_text) 501), []))"
  using assms
  by (cases "String_opt (field body ''type'')")
     (simp_all add: dispatch_def get_prop_field bind_lift_Inr bind_lift_Inl try_catch_def ret_def)

lemma dispatch_ably_bodies:
  assumes "route \<noteq> JNull" and "body \<noteq> JNull" and "plain_route route"
    and "field route ''type'' = Some (JStr ''ABLY'')"
  shows "published_bodies (snd (dispatch P G route body)) =
           [JArr [JObj [(''name'', or_else (field body ''action'') (JStr ''gateway-event'')),
                        (''data'', body)]]]"
proof -
  have d: "dispatch P G route body =
             try_catch (handleAbly P G route body)
               (\<lambda>e. bind (lift (get_prop body ''type'')) (\<lambda>body_type.
                  bind (lift (String_opt body_type)) (\<lambda>type_text.
                  bind (emit Console_error) (\<lambda>_. ret (jsonError ''Gateway processing failed'' 500)))))"
    using assms(1,4) by (simp add: dispatch_def get_prop_field bind_lift_Inr)
  obtain c t where c: "credential G route = Inr c" "String_token c = Inr t"
    using assms(3) by (rule plain_credential)
  from assms(3) obtain channel where ch: "String_opt (field route ''channelName'') = Inr channel"
    using converts_Inr unfolding plain_route_def by blast
  show ?thesis
    unfolding d
    using try_catch_trace [OF handleAbly_trace [OF assms(1) handleAbly_request_eq [OF assms(1,2) c ch]]
        dispatch_handler_quiet]
    by simp
qed

lemma dispatch_rest_bodies:
  assumes "route \<noteq> JNull" and "plain_route route"
    and "field route ''type'' = Some (JStr ''REST'')"
  shows "published_bodies (snd (dispatch P G route body)) = [body]"
proof -
  have d: "dispatch P G route body =
             try_catch (handleRest P G route body)
               (\<lambda>e. bind (lift (get_prop body ''type'')) (\<lambda>body_type.
                  bind (lift (String_opt body_type)) (\<lambda>type_text.
                  bind (emit Console_error) (\<lambda>_. ret (jsonError ''Gateway processing failed'' 500)))))"
    using assms(1,3) by (simp add: dispatch_def get_prop_field bind_lift_Inr)
  obtain c t where c: "credential G route = Inr c" "String_token c = Inr t"
    using assms(2) by (rule plain_credential)
  from assms(2) obtain url where u: "String_opt (field route ''targetUrl'') = Inr url"
    using converts_Inr unfolding plain_route_def by blast
  show ?thesis
    unfolding d
    using try_catch_trace [OF handleRest_trace [OF handleRest_request_eq [OF assms(1) c(1) c(2) u]]
        dispatch_handler_quiet]
    by simp
qed

lemma route_and_dispatch_eq:
  assumes "route_key body = Inr key"
    and "resolve P G (request_id_of body) key = (Inr (Inr route), tr)"
    and "inject_table_name route body = (Inr body', tr')"
  shows "route_and_dispatch P G body =
           (fst (dispatch P G route body'), tr @ tr' @ snd (dispatch P G route body'))"
proof -
  have "route_and_dispatch P G body =
      bind (resolve P G (request_id_of body) key) (\<lambda>resolved.
        case resolved of
          Inl response \<Rightarrow> ret response
        | Inr route \<Rightarrow> bind (inject_table_name route body) (\<lambda>body'. dispatch P G route body'))"
    using assms(1) by (simp add: route_and_dispatch_def bind_lift_Inr)
  with assms(2,3) show ?thesis by (simp add: bind_def split: prod.splits)
qed

lemma jsonSuccess_shape: "jsonSuccess [(''status'', a), (''message'', b)] =
    JsonResponse 200 (JObj [(''success'', JBool True), (''status'', a), (''message'', b)])"
  by (simp add: jsonSuccess_def)

lemma handleRest_shape:
  "(\<exists>e. fst (handleRest P G route body) = Inl e) \<or> (\<exists>r. fst (handleRest P G route body) = Inr (Forwarded r))"
proof (cases "handleRest_request G route body")
  case (Pair r t)
  then show ?thesis
    by (cases r) (simp_all add: handleRest_def do_fetch_def comp_defs split: option.splits)
qed

lemma handleAbly_shape:
  "(\<exists>e. fst (handleAbly P G route body) = Inl e)
   \<or> (\<exists>c b rest. fst (handleAbly P G route body) = Inr (JsonResponse c (JObj ((''success'', b) # rest))))"
proof (cases "handleAbly_request P G route body")
  case (Pair r t)
  show ?thesis
  proof (cases r)
    case (Inl e)
    with Pair show ?thesis by (simp add: handleAbly_def bind_fail)
  next
    case (Inr req)
    show ?thesis
    proof (cases "get_prop route ''channelName''")
      case (Inl e)
      with Pair Inr show ?thesis by (simp add: handleAbly_def comp_defs)
    next
      case channel: (Inr ch)
      with Pair Inr show ?thesis
        by (cases "String_opt ch")
           (simp_all add: handleAbly_def do_fetch_def jsonSuccess_shape jsonError_def comp_defs
              split: option.splits)
    qed
  qed
qed

section \<open>Dispatch\<close>

lemma dispatch_shape:
  "(\<exists>e. fst (dispatch P G route body) = Inl e)
   \<or> (\<exists>r. fst (dispatch P G route body) = Inr (Forwarded r))
   \<or> (\<exists>c b rest. fst (dispatch P G route body) = Inr (JsonResponse c (JObj ((''success'', b) # rest))))"
proof -
  let ?h = "\<lambda>e::exn. bind (lift (get_prop body ''type'')) (\<lambda>body_type.
              bind (lift (String_opt body_type)) (\<lambda>type_text.
              bind (emit Console_error) (\<lambda>_. ret (jsonError ''Gateway processing failed'' 500))))"
  let ?d = "bind (lift (get_prop body ''type'')) (\<lambda>body_type.
               bind (lift (String_opt body_type)) (\<lambda>type_text.
                 ret (jsonError (''Unsupported service type: '' @ type_text) 501)))"
  let ?m = "bind (lift (get_prop route ''type'')) (\<lambda>type.
          if type = Some (JStr ''REST'') then handleRest P G route body
          else if type = Some (JStr ''ABLY'') then handleAbly P G route body
          else ?d)"
  have h: "(\<exists>e'. fst (?h e) = Inl e')
      \<or> (\<exists>c b rest. fst (?h e) = Inr (JsonResponse c (JObj ((''success'', b) # rest))))" for e
  proof (cases "get_prop body ''type''")
    case (Inl e')
    then show ?thesis by (simp add: comp_defs)
  next
    case (Inr v)
    then show ?thesis by (cases "String_opt v") (simp_all add: comp_defs jsonError_def)
  qed
  have d: "(\<exists>e'. fst ?d = Inl e')
      \<or> (\<exists>c b rest. fst ?d = Inr (JsonResponse c (JObj ((''success'', b) # rest))))"
  proof (cases "get_prop body ''type''")
    case (Inl e')
    then show ?thesis by (simp add: comp_defs)
  next
    case (Inr v)
    then show ?thesis by (cases "String_opt v") (simp_all add: comp_defs jsonError_def)
  qed
  have m: "(\<exists>e. fst ?m = Inl e) \<or> (\<exists>r. fst ?m = Inr (Forwarded r))
      \<or> (\<exists>c b rest. fst ?m = Inr (JsonResponse c (JObj ((''success'', b) # rest))))"
  proof (cases "get_prop route ''type''")
    case (Inl e)
    then show ?thesis by (simp add: bind_lift_Inl)
  next
    case (Inr type)
    consider (rest) "type = Some (JStr ''REST'')"
      | (ably) "type \<noteq> Some (JStr ''REST'')" "type = Some (JStr ''ABLY'')"
      | (other) "type \<noteq> Some (JStr ''REST'')" "type \<noteq> Some (JStr ''ABLY'')"
      by blast
    then show ?thesis
    proof cases
      case rest
      then have "?m = handleRest P G route body" by (simp add: Inr bind_lift_Inr)
      with handleRest_shape [of P G route body] show ?thesis by auto
    next
      case ably
      then have "?m = handleAbly P G route body" by (simp add: Inr bind_lift_Inr)
      with handleAbly_shape [of P G route body] show ?thesis by auto
    next
      case other
      then have "?m = ?d" by (simp add: Inr bind_lift_Inr)
      with d show ?thesis by auto
    qed
  qed
  have e: "dispatch P G route body = try_catch ?m ?h"
    by (simp add: dispatch_def)
  show ?thesis
    unfolding e try_catch_fst using m h by (auto split: sum.splits)
qed

lemma resolve_nack:
  assumes "resolve P G requestId key = (Inr (Inl response), tr)"
  shows "response = nack requestId ''NO_ROUTE'' (''No route found for '' @ key)"
proof -
  obtain v t' where "findRouteFromDB P G key = (Inr v, t')"
    using findRouteFromDB_returns by blast
  with assms show ?thesis
    by (auto simp add: resolve_def store_fallback_def comp_defs split: option.splits if_splits)
qed

lemma reaches_dispatch_facts:
  assumes "reaches_dispatch P G request body route"
  obtains kvs payload key tr envelope tr' where "body = JObj kvs"
    "map_of kvs ''payload'' = Some payload"
    "route \<noteq> JNull"
    "route_key body = Inr key"
    "resolve P G (request_id_of body) key = (Inr (Inr route), tr)"
    "published_bodies tr = []"
    "inject_table_name route body = (Inr envelope, tr')"
    "handleApi P G request = route_and_dispatch P G body"
proof -
  from assms have a: "authenticated G request" "json_body request = Some body"
      "truthy_opt (field body ''service'')" "truthy_opt (field body ''payload'')"
    by (simp_all add: reaches_dispatch_def)
  from assms obtain key where k: "route_key body = Inr key"
      "fst (resolve P G (request_id_of body) key) = Inr (Inr route)"
    by (cases "route_key body") (simp_all add: reaches_dispatch_def)
  from assms obtain envelope where "fst (inject_table_name route body) = Inr envelope"
    by (cases "fst (inject_table_name route body)") (simp_all add: reaches_dispatch_def)
  then obtain tr' where i: "inject_table_name route body = (Inr envelope, tr')"
    by (cases "inject_table_name route body") simp
  from a(4) obtain kvs payload where b: "body = JObj kvs" "map_of kvs ''payload'' = Some payload"
    by (cases body; cases "field body ''payload''") auto
  from k(2) obtain tr where r: "resolve P G (request_id_of body) key = (Inr (Inr route), tr)"
    by (cases "resolve P G (request_id_of body) key") simp
  from resolve_route [OF r] have t: "route \<noteq> JNull" "published_bodies tr = []" by auto
  from handleApi_validated [OF a(1,2,3), of P] a(4)
  have "handleApi P G request = route_and_dispatch P G body" by simp
  then show ?thesis using that [OF b t(1) k(1) r t(2) i] by simp
qed

lemma handleApi_dispatched:
  assumes "reaches_dispatch P G request body route"
  obtains kvs kvs' tr' where "body = JObj kvs"
    "inject_table_name route body = (Inr (JObj kvs'), tr')"
    "\<forall>k. k \<noteq> ''payload'' \<longrightarrow> map_of kvs' k = map_of kvs k"
    "fst (handleApi P G request) = fst (dispatch P G route (JObj kvs'))"
    "published_bodies (snd (handleApi P G request)) =
           published_bodies (snd (dispatch P G route (JObj kvs')))"
proof -
  from assms obtain kvs payload key tr envelope tr' where f: "body = JObj kvs"
    "map_of kvs ''payload'' = Some payload"
    "route \<noteq> JNull"
    "route_key body = Inr key"
    "resolve P G (request_id_of body) key = (Inr (Inr route), tr)"
    "published_bodies tr = []"
    "inject_table_name route body = (Inr envelope, tr')"
    "handleApi P G request = route_and_dispatch P G body"
    by (rule reaches_dispatch_facts)
  from inject_result [OF f(3,2) f(7) [unfolded f(1)]] obtain kvs' where
    i: "envelope = JObj kvs'" "published_bodies tr' = []"
      "\<forall>k. k \<noteq> ''payload'' \<longrightarrow> map_of kvs' k = map_of kvs k"
    by blast
  have i': "inject_table_name route body = (Inr (JObj kvs'), tr')"
    using f(7) i(1) by simp
  have e: "handleApi P G request =
      (fst (dispatch P G route (JObj kvs')), tr @ tr' @ snd (dispatch P G route (JObj kvs')))"
    unfolding f(8) using f(4,5) i' by (rule route_and_dispatch_eq)
  have "fst (handleApi P G request) = fst (dispatch P G route (JObj kvs'))"
    unfolding e by simp
  moreover have "published_bodies (snd (handleApi P G request)) =
           published_bodies (snd (dispatch P G route (JObj kvs')))"
    unfolding e using f(6) i(2) by (simp add: published_bodies_append)
  ultimately show ?thesis using that [OF f(1) i' i(3)] by simp
qed


section \<open>Concrete runs\<close>

text \<open>The definitions a concrete run of \<open>handleApi\<close> unfolds.\<close>

lemmas run_defs = handleApi_def resolve_def store_fallback_def findRouteFromDB_def query_route_def
  inject_table_name_def strip_table_name_def set_payload_def dispatch_def handleRest_def
  handleRest_request_def handleAbly_def handleAbly_request_def do_fetch_def
  nack_def jsonResponse_def jsonError_def jsonSuccess_def comp_defs index_def env_read_def
  Object_prototype_def C_GATEWAY_TOKEN_NAME_def ABLY_PUBLISH_BASE_URL_def

lemmas reach_defs = reaches_dispatch_def authenticated_def request_id_of_def route_key_def
  index_def env_read_def C_GATEWAY_TOKEN_NAME_def resolve_def store_fallback_def
  findRouteFromDB_def query_route_def inject_table_name_def strip_table_name_def set_payload_def
  comp_defs



section \<open>The payload check\<close>

lemma route_and_dispatch_key:
  assumes "route_key body = Inr key"
  shows "route_and_dispatch P G body =
      bind (resolve P G (request_id_of body) key) (\<lambda>resolved.
        case resolved of
          Inl response \<Rightarrow> ret response
        | Inr route \<Rightarrow> bind (inject_table_name route body) (\<lambda>body'. dispatch P G route body'))"
  using assms by (simp add: route_and_dispatch_def bind_lift_Inr)

lemma route_and_dispatch_not_invalid_field:
  assumes "map_of kvs ''payload'' = Some payload"
  shows "fst (route_and_dispatch P G (JObj kvs)) \<noteq> Inr (nack requestId ''INVALID_FIELD'' message)"
proof (cases "route_key (JObj kvs)")
  case (Inl e)
  then show ?thesis by (simp add: route_and_dispatch_def bind_lift_Inl)
next
  case (Inr key)
  let ?body = "JObj kvs"
  obtain x tr where r: "resolve P G (request_id_of ?body) key = (Inr x, tr)"
    using resolve_returns by blast
  show ?thesis
  proof (cases x)
    case (Inl response)
    with r have r': "resolve P G (request_id_of ?body) key = (Inr (Inl response), tr)"
      by simp
    have "response = nack (request_id_of ?body) ''NO_ROUTE'' (''No route found for '' @ key)"
      using r' by (rule resolve_nack)
    moreover have "fst (route_and_dispatch P G ?body) = Inr response"
      unfolding route_and_dispatch_key [OF Inr] r' by (simp add: bind_def ret_def)
    ultimately show ?thesis
      by (simp add: nack_def jsonResponse_def)
  next
    case route: (Inr route)
    with r have r': "resolve P G (request_id_of ?body) key = (Inr (Inr route), tr)"
      by simp
    obtain y tr' where i: "inject_table_name route ?body = (y, tr')"
      by (cases "inject_table_name route ?body")
    show ?thesis
    proof (cases y)
      case (Inl e)
      have "fst (route_and_dispatch P G ?body) = Inl e"
        unfolding route_and_dispatch_key [OF Inr] r' using i Inl by (simp add: bind_def)
      then show ?thesis by simp
    next
      case envelope: (Inr envelope)
      have "fst (route_and_dispatch P G ?body) = fst (dispatch P G route envelope)"
        using route_and_dispatch_eq [OF Inr r' i [unfolded envelope]] by simp
      with dispatch_shape [of P G route envelope] show ?thesis
        by (auto simp add: nack_def jsonResponse_def)
    qed
  qed
qed

text \<open>
  Claim C2, as the code has it. For an authenticated request whose body has a truthy
  \<open>service\<close>, the check of line 97 is a truthiness test: a payload that is absent,
  \<open>null\<close>, \<open>false\<close>, \<open>0\<close> or the empty string gets the INVALID_FIELD nack with status
  400 and nothing else happens; every other payload (any object, \<open>{}\<close> included, any
  array, a non-zero number, \<open>true\<close>, a non-empty string) passes, the request goes on to
  route resolution, and its response is never the INVALID_FIELD nack.
\<close>

theorem payload_must_be_truthy:
  assumes "authenticated G request"
    and "json_body request = Some body"
    and "truthy_opt (field body ''service'')"
  shows "(\<not> truthy_opt (field body ''payload'') \<longrightarrow>
            handleApi P G request =
              (Inr (JsonResponse 400
                      (JObj [(''type'', JStr ''nack''), (''request_id'', request_id_of body),
                             (''payload'', JObj [(''status'', JStr ''error''),
                                                 (''code'', JStr ''INVALID_FIELD''),
                                                 (''message'', JStr ''Missing required field: payload'')])])),
               []))
       \<and> (truthy_opt (field body ''payload'') \<longrightarrow>
            handleApi P G request = route_and_dispatch P G body
            \<and> (\<forall>requestId message.
                  fst (handleApi P G request) \<noteq> Inr (nack requestId ''INVALID_FIELD'' message)))
       \<and> (truthy_opt (field body ''payload'') \<longleftrightarrow>
            field body ''payload'' \<notin> {None, Some JNull, Some (JBool False), Some (JNum ''0''), Some (JStr [])})"
proof (intro conjI impI allI)
  assume "\<not> truthy_opt (field body ''payload'')"
  with handleApi_validated [OF assms, of P]
  show "handleApi P G request =
              (Inr (JsonResponse 400
                      (JObj [(''type'', JStr ''nack''), (''request_id'', request_id_of body),
                             (''payload'', JObj [(''status'', JStr ''error''),
                                                 (''code'', JStr ''INVALID_FIELD''),
                                                 (''message'', JStr ''Missing required field: payload'')])])),
               [])"
    by (simp add: ret_def nack_def jsonResponse_def)
next
  assume t: "truthy_opt (field body ''payload'')"
  with handleApi_validated [OF assms, of P]
  show e: "handleApi P G request = route_and_dispatch P G body" by simp
  fix requestId message
  from t obtain kvs payload where "body = JObj kvs" "map_of kvs ''payload'' = Some payload"
    by (cases body; cases "field body ''payload''") auto
  with route_and_dispatch_not_invalid_field [of kvs payload P G requestId message] e
  show "fst (handleApi P G request) \<noteq> Inr (nack requestId ''INVALID_FIELD'' message)"
    by simp
next
  show "truthy_opt (field body ''payload'') \<longleftrightarrow>
          field body ''payload'' \<notin> {None, Some JNull, Some (JBool False), Some (JNum ''0''), Some (JStr [])}"
    using truthy_opt_falsy [of "field body ''payload''"] by blast
qed

theorem payload_must_be_truthy_witness:
  "handleApi example_platform example_gateway
     \<lparr>authorization = Some ''Bearer s3cret'',
      json_body = Some (JObj [(''request_id'', JStr ''r7''), (''service'', JStr ''demorest'')])\<rparr> =
   (Inr (JsonResponse 400
           (JObj [(''type'', JStr ''nack''), (''request_id'', JStr ''r7''),
                  (''payload'', JObj [(''status'', JStr ''error''),
                                      (''code'', JStr ''INVALID_FIELD''),
                                      (''message'', JStr ''Missing required field: payload'')])])),
    [])
   \<and> handleApi example_platform example_gateway
     \<lparr>authorization = Some ''Bearer s3cret'',
      json_body = Some (JObj [(''service'', JStr ''demorest''), (''payload'', JObj [])])\<rparr> =
     route_and_dispatch example_platform example_gateway
       (JObj [(''service'', JStr ''demorest''), (''payload'', JObj [])])"
proof -
  have a: "authenticated example_gateway \<lparr>authorization = Some ''Bearer s3cret'', json_body = b\<rparr>" for b
    by (simp add: authenticated_def example_gateway_def index_def env_read_def C_GATEWAY_TOKEN_NAME_def)
  from payload_must_be_truthy [OF a, of _ "JObj [(''request_id'', JStr ''r7''), (''service'', JStr ''demorest'')]"
      example_platform]
  have one: "handleApi example_platform example_gateway
     \<lparr>authorization = Some ''Bearer s3cret'',
      json_body = Some (JObj [(''request_id'', JStr ''r7''), (''service'', JStr ''demorest'')])\<rparr> =
   (Inr (JsonResponse 400
           (JObj [(''type'', JStr ''nack''), (''request_id'', JStr ''r7''),
                  (''payload'', JObj [(''status'', JStr ''error''),
                                      (''code'', JStr ''INVALID_FIELD''),
                                      (''message'', JStr ''Missing required field: payload'')])])),
    [])"
    by (simp add: request_id_of_def)
  from payload_must_be_truthy [OF a, of _ "JObj [(''service'', JStr ''demorest''), (''payload'', JObj [])]"
      example_platform]
  have two: "handleApi example_platform example_gateway
     \<lparr>authorization = Some ''Bearer s3cret'',
      json_body = Some (JObj [(''service'', JStr ''demorest''), (''payload'', JObj [])])\<rparr> =
     route_and_dispatch example_platform example_gateway
       (JObj [(''service'', JStr ''demorest''), (''payload'', JObj [])])"
    by simp
  from one two show ?thesis by (rule conjI)
qed

text \<open>
  Claim C2 as stated says that the payload \<open>0\<close> counts as present. The code answers it
  with the INVALID_FIELD nack.
\<close>

theorem falsy_payload_counterexample:
  "handleApi example_platform example_gateway
     \<lparr>authorization = Some ''Bearer s3cret'',
      json_body = Some (JObj [(''version'', JStr ''v99''), (''service'', JStr ''demorest''),
                              (''payload'', JNum ''0'')])\<rparr> =
   (Inr (JsonResponse 400
           (JObj [(''type'', JStr ''nack''), (''request_id'', JStr ''unknown''),
                  (''payload'', JObj [(''status'', JStr ''error''),
                                      (''code'', JStr ''INVALID_FIELD''),
                                      (''message'', JStr ''Missing required field: payload'')])])),
    [])"
  by (simp add: run_defs example_gateway_def)

section \<open>What is forwarded\<close>

lemma dispatch_bodies:
  assumes "route \<noteq> JNull" and "body \<noteq> JNull" and "plain_route route"
  shows "published_bodies (snd (dispatch P G route body)) =
           (if field route ''type'' = Some (JStr ''REST'') then [body]
            else if field route ''type'' = Some (JStr ''ABLY'')
                 then [JArr [JObj [(''name'', or_else (field body ''action'') (JStr ''gateway-event'')),
                                   (''data'', body)]]]
                 else [])"
proof (cases "field route ''type'' = Some (JStr ''REST'')")
  case True
  with dispatch_rest_bodies [OF assms(1,3) True] show ?thesis by simp
next
  case False
  show ?thesis
  proof (cases "field route ''type'' = Some (JStr ''ABLY'')")
    case True
    with False dispatch_ably_bodies [OF assms True] show ?thesis by simp
  next
    case nA: False
    with False dispatch_unsupported [OF assms(1,2) False nA, of P G] show ?thesis
      by (cases "String_opt (field body ''type'')") simp_all
  qed
qed

lemma dispatched_parts:
  assumes "dispatched P G request body route"
  shows "reaches_dispatch P G request body route" and "plain_route route"
  using assms by (simp_all add: dispatched_def)

text \<open>
  Claim C1, as the code has it. For a dispatched request on an ABLY route, exactly one
  request is published and its body is the one-element array \<open>[{name: e, data: d}]\<close>
  where \<open>d\<close> is the whole request envelope, as the \<open>table_name\<close> step leaves it, and
  \<open>e\<close> is the envelope's own top-level \<open>action\<close> when that is truthy, else
  "gateway-event".
\<close>

theorem bus_body_is_whole_envelope:
  assumes "dispatched P G request body route"
    and "field route ''type'' = Some (JStr ''ABLY'')"
  shows "\<exists>envelope tr.
           inject_table_name route body = (Inr envelope, tr)
         \<and> field envelope ''action'' = field body ''action''
         \<and> published_bodies (snd (handleApi P G request)) =
             [JArr [JObj [(''name'', or_else (field body ''action'') (JStr ''gateway-event'')),
                          (''data'', envelope)]]]"
proof -
  note rp = dispatched_parts [OF assms(1)]
  from rp(1) obtain kvs kvs' tr' where
    h: "body = JObj kvs"
      "inject_table_name route body = (Inr (JObj kvs'), tr')"
      "\<forall>k. k \<noteq> ''payload'' \<longrightarrow> map_of kvs' k = map_of kvs k"
      "published_bodies (snd (handleApi P G request)) =
           published_bodies (snd (dispatch P G route (JObj kvs')))"
    by (rule handleApi_dispatched)
  from rp(1) have nn: "route \<noteq> JNull" by (rule reaches_dispatch_facts)
  have act: "field (JObj kvs') ''action'' = field body ''action''"
    using h(1,3) by simp
  have "published_bodies (snd (dispatch P G route (JObj kvs'))) =
          [JArr [JObj [(''name'', or_else (field (JObj kvs') ''action'') (JStr ''gateway-event'')),
                       (''data'', JObj kvs')]]]"
    using nn _ rp(2) assms(2) by (rule dispatch_ably_bodies) simp
  with h(2,4) act show ?thesis by simp
qed

lemmas dispatched_defs = dispatched_def plain_route_def converts_def reach_defs

theorem bus_body_is_whole_envelope_witness:
  "published_bodies (snd (handleApi example_platform example_gateway
     \<lparr>authorization = Some ''Bearer s3cret'',
      json_body = Some (JObj [(''version'', JStr ''v88''), (''service'', JStr ''demoably''),
                              (''action'', JStr ''ping''), (''payload'', JObj [])])\<rparr>))
   = [JArr [JObj [(''name'', JStr ''ping''),
                  (''data'', JObj [(''version'', JStr ''v88''), (''service'', JStr ''demoably''),
                                   (''action'', JStr ''ping''), (''payload'', JObj [])])]]]"
proof -
  let ?body = "JObj [(''version'', JStr ''v88''), (''service'', JStr ''demoably''),
                     (''action'', JStr ''ping''), (''payload'', JObj [])]"
  let ?route = "JObj [(''type'', JStr ''ABLY''), (''authKeyEnvName'', JStr ''ABLY_API_KEY''),
                      (''channelName'', JStr ''system_bus_v1'')]"
  have d: "dispatched example_platform example_gateway
             \<lparr>authorization = Some ''Bearer s3cret'', json_body = Some ?body\<rparr> ?body ?route"
    by (simp add: dispatched_defs example_gateway_def template_map_def)
  have t: "field ?route ''type'' = Some (JStr ''ABLY'')" by simp
  have i: "inject_table_name ?route ?body = (Inr ?body, [])"
    by (simp add: inject_table_name_def strip_table_name_def comp_defs)
  from bus_body_is_whole_envelope [OF d t] i show ?thesis by auto
qed

text \<open>
  Claim C1 as stated takes \<open>data\<close> and the event name from \<open>envelope.payload\<close>. For
  a payload \<open>{action: "created"}\<close> the code publishes the whole envelope under the name
  "gateway-event", not the payload under the name "created".
\<close>

theorem bus_body_counterexample:
  "published_bodies (snd (handleApi example_platform example_gateway
     \<lparr>authorization = Some ''Bearer s3cret'',
      json_body = Some (JObj [(''version'', JStr ''v88''), (''service'', JStr ''demoably''),
                              (''payload'', JObj [(''action'', JStr ''created'')])])\<rparr>))
   = [JArr [JObj [(''name'', JStr ''gateway-event''),
                  (''data'', JObj [(''version'', JStr ''v88''), (''service'', JStr ''demoably''),
                                   (''payload'', JObj [(''action'', JStr ''created'')])])]]]
   \<and> published_bodies (snd (handleApi example_platform example_gateway
     \<lparr>authorization = Some ''Bearer s3cret'',
      json_body = Some (JObj [(''version'', JStr ''v88''), (''service'', JStr ''demoably''),
                              (''payload'', JObj [(''action'', JStr ''created'')])])\<rparr>))
   \<noteq> [claimed_bus_body (JObj [(''action'', JStr ''created'')])]"
  by (simp add: run_defs example_gateway_def example_platform_def template_map_def claimed_bus_body_def)

text \<open>
  Claim C6, as the code has it. For a dispatched request, the envelope that is forwarded
  (as it is to a REST route, as \<open>data\<close> to an ABLY route) differs from the request body
  in its payload only. When the payload is an object: if \<open>route.table_name\<close> is truthy
  the forwarded payload has \<open>table_name\<close> equal to it, whatever the client sent, and if
  it is not, the forwarded payload has no \<open>table_name\<close>; its other properties are
  those of the client, and nothing is logged. When the payload is an array it is
  forwarded unchanged and nothing is logged. When the payload is a primitive the step
  throws, one warning is logged, and the envelope is forwarded unchanged.
\<close>

theorem table_name_step:
  assumes "dispatched P G request body route"
    and "field body ''payload'' = Some payload"
  shows "\<exists>envelope tr.
           inject_table_name route body = (Inr envelope, tr)
         \<and> published_bodies (snd (handleApi P G request)) =
             (if field route ''type'' = Some (JStr ''REST'') then [envelope]
              else if field route ''type'' = Some (JStr ''ABLY'')
                   then [JArr [JObj [(''name'', or_else (field body ''action'') (JStr ''gateway-event'')),
                                     (''data'', envelope)]]]
                   else [])
         \<and> (\<forall>k. k \<noteq> ''payload'' \<longrightarrow> field envelope k = field body k)
         \<and> (\<forall>fs. payload = JObj fs \<longrightarrow>
               tr = []
               \<and> (\<exists>fs'. field envelope ''payload'' = Some (JObj fs')
                     \<and> map_of fs' ''table_name'' =
                         (if truthy_opt (field route ''table_name'') then field route ''table_name''
                          else None)
                     \<and> (\<forall>k. k \<noteq> ''table_name'' \<longrightarrow> map_of fs' k = map_of fs k)))
         \<and> ((\<exists>xs. payload = JArr xs) \<longrightarrow> envelope = body \<and> tr = [])
         \<and> ((\<forall>fs. payload \<noteq> JObj fs) \<and> (\<forall>xs. payload \<noteq> JArr xs) \<longrightarrow>
               envelope = body \<and> tr = [Console_warn])"
proof -
  note rp = dispatched_parts [OF assms(1)]
  from rp(1) obtain kvs kvs' tr' where
    h: "body = JObj kvs"
      "inject_table_name route body = (Inr (JObj kvs'), tr')"
      "\<forall>k. k \<noteq> ''payload'' \<longrightarrow> map_of kvs' k = map_of kvs k"
      "published_bodies (snd (handleApi P G request)) =
           published_bodies (snd (dispatch P G route (JObj kvs')))"
    by (rule handleApi_dispatched)
  from rp(1) have nn: "route \<noteq> JNull" by (rule reaches_dispatch_facts)
  from rp(2) have cu: "converts (field route ''targetUrl'')" by (simp add: plain_route_def)
  from assms(2) h(1) have p: "map_of kvs ''payload'' = Some payload" by simp
  have act: "field (JObj kvs') ''action'' = field body ''action''"
    using h(1,3) by simp
  have sent: "published_bodies (snd (handleApi P G request)) =
             (if field route ''type'' = Some (JStr ''REST'') then [JObj kvs']
              else if field route ''type'' = Some (JStr ''ABLY'')
                   then [JArr [JObj [(''name'', or_else (field body ''action'') (JStr ''gateway-event'')),
                                     (''data'', JObj kvs')]]]
                   else [])"
    unfolding h(4) act [symmetric] using nn _ rp(2) by (rule dispatch_bodies) simp
  have others: "\<forall>k. k \<noteq> ''payload'' \<longrightarrow> field (JObj kvs') k = field body k"
    using h(1,3) by simp
  have obj: "tr' = [] \<and> (\<exists>fs'. field (JObj kvs') ''payload'' = Some (JObj fs')
                     \<and> map_of fs' ''table_name'' =
                         (if truthy_opt (field route ''table_name'') then field route ''table_name''
                          else None)
                     \<and> (\<forall>k. k \<noteq> ''table_name'' \<longrightarrow> map_of fs' k = map_of fs k))"
    if "payload = JObj fs" for fs
  proof -
    from p that have "map_of kvs ''payload'' = Some (JObj fs)" by simp
    from inject_object [OF nn this] h(1,2)
    have e: "kvs' = AList.update ''payload'' (JObj (with_table_name (field route ''table_name'') fs)) kvs"
      and t: "tr' = []" by simp_all
    have w: "map_of (with_table_name (field route ''table_name'') fs) ''table_name'' =
               (if truthy_opt (field route ''table_name'') then field route ''table_name'' else None)"
      by (cases "field route ''table_name''") (simp_all add: update_conv' delete_conv')
    have w': "\<forall>k. k \<noteq> ''table_name'' \<longrightarrow>
                map_of (with_table_name (field route ''table_name'') fs) k = map_of fs k"
      by (cases "field route ''table_name''") (simp_all add: update_conv' delete_conv')
    from e t w w' show ?thesis by (simp add: update_conv')
  qed
  have arr: "JObj kvs' = body \<and> tr' = []" if "\<exists>xs. payload = JArr xs"
  proof -
    from that p obtain xs where "map_of kvs ''payload'' = Some (JArr xs)" by auto
    from inject_array [OF nn this] h(1,2) show ?thesis by simp
  qed
  have prim: "JObj kvs' = body \<and> tr' = [Console_warn]"
    if "(\<forall>fs. payload \<noteq> JObj fs) \<and> (\<forall>xs. payload \<noteq> JArr xs)"
  proof -
    from that have "\<forall>fs. payload \<noteq> JObj fs" "\<forall>xs. payload \<noteq> JArr xs" by simp_all
    from inject_primitive [OF nn p this cu] h(1,2) show ?thesis by simp
  qed
  from h(2) sent others obj arr prim show ?thesis by blast
qed

theorem table_name_step_witness:
  "published_bodies (snd (handleApi example_platform orders_gateway
     \<lparr>authorization = Some ''Bearer s3cret'',
      json_body = Some (JObj [(''service'', JStr ''orders''),
                              (''payload'', JObj [(''table_name'', JStr ''users''), (''qty'', JNum ''2'')])])\<rparr>))
   = [JObj [(''service'', JStr ''orders''),
            (''payload'', JObj [(''table_name'', JStr ''orders''), (''qty'', JNum ''2'')])]]"
proof -
  let ?payload = "JObj [(''table_name'', JStr ''users''), (''qty'', JNum ''2'')]"
  let ?body = "JObj [(''service'', JStr ''orders''), (''payload'', ?payload)]"
  let ?route = "JObj [(''type'', JStr ''REST''),
                      (''targetUrl'', JStr ''https://orders.example.com''),
                      (''token'', JStr ''T1''),
                      (''authKeyEnvName'', JStr ''ORDERS_KEY''),
                      (''table_name'', JStr ''orders'')]"
  have d: "dispatched example_platform orders_gateway
             \<lparr>authorization = Some ''Bearer s3cret'', json_body = Some ?body\<rparr> ?body ?route"
    by (simp add: dispatched_defs orders_gateway_def)
  have p: "field ?body ''payload'' = Some ?payload" by simp
  have i: "inject_table_name ?route ?body =
      (Inr (JObj [(''service'', JStr ''orders''),
                  (''payload'', JObj [(''table_name'', JStr ''orders''), (''qty'', JNum ''2'')])]), [])"
    by (simp add: inject_table_name_def set_payload_def comp_defs)
  from table_name_step [OF d p] i show ?thesis by auto
qed

text \<open>
  Claim C6 as stated promises \<open>table_name\<close> in every forwarded payload when the route
  sets it, and a logged skip otherwise. For an array payload on a route with
  \<open>table_name = "orders"\<close> the forwarded payload is the array, without
  \<open>table_name\<close>, and the trace has no warning.
\<close>

theorem array_payload_counterexample:
  "handleApi example_platform orders_gateway
     \<lparr>authorization = Some ''Bearer s3cret'',
      json_body = Some (JObj [(''service'', JStr ''orders''), (''payload'', JArr [JNum ''1''])])\<rparr> =
   (Inr (Forwarded \<lparr>reply_status = 200, reply_text = ''ok''\<rparr>),
    [Fetch \<lparr>out_url = ''https://orders.example.com'', out_method = ''POST'',
            out_headers = [(''Content-Type'', ''application/json''), (''Authorization'', ''Bearer T1'')],
            out_body = JObj [(''service'', JStr ''orders''), (''payload'', JArr [JNum ''1''])]\<rparr>])"
  by (simp add: run_defs orders_gateway_def example_platform_def)

section \<open>Outbound credentials\<close>

lemma rest_sends_credential:
  assumes "route \<noteq> JNull"
    and "credential G route = Inr c"
    and "truthy_token c \<Longrightarrow> String_token c = Inr t"
    and "String_opt (field route ''targetUrl'') = Inr url"
  shows "rest_sends P G route bodyJson
           (rest_request url (if truthy_token c then Some (''Bearer '' @ t) else None) bodyJson)"
proof -
  have r: "handleRest_request G route bodyJson =
      (Inr (rest_request url (if truthy_token c then Some (''Bearer '' @ t) else None) bodyJson), [])"
    using handleRest_request_eq [OF assms, of bodyJson] by (simp add: rest_request_def)
  from r handleRest_trace [OF r, of P] show ?thesis by (simp add: rest_sends_def)
qed

text \<open>
  Claim C7, as the code has it. For a route whose \<open>targetUrl\<close> has a string conversion,
  \<open>handleRest\<close> sends one POST to it with the body it was given and with Content-Type
  application/json. Its Authorization header is "Bearer " followed by \<open>route.token\<close>
  whenever that is truthy (non-empty), whatever \<open>authKeyEnvName\<close> is. Only when the token
  is not truthy is \<open>G_ENV[route.authKeyEnvName]\<close> read: that is the secret of that name,
  or, when the environment has no such secret, any other property the environment object
  has under that name (an object binding, or a property inherited from
  \<open>Object.prototype\<close>), whose string conversion is then sent. There is no Authorization
  header when the token is not truthy and the name is not set, or the read gives
  \<open>undefined\<close> or the empty string.
\<close>

theorem rest_credential_precedence:
  assumes "truthy route"
    and "String_opt (field route ''targetUrl'') = Inr url"
  shows "(\<forall>token_text. truthy_opt (field route ''token'') \<and> String_opt (field route ''token'') = Inr token_text \<longrightarrow>
            rest_sends P G route bodyJson (rest_request url (Some (''Bearer '' @ token_text)) bodyJson))
       \<and> (\<forall>name. \<not> truthy_opt (field route ''token'') \<and> truthy_opt (field route ''authKeyEnvName'')
                  \<and> String_opt (field route ''authKeyEnvName'') = Inr name \<longrightarrow>
            rest_sends P G route bodyJson
              (rest_request url
                 (case env_read G name of
                    None \<Rightarrow> None
                  | Some (Secret s) \<Rightarrow> if s = [] then None else Some (''Bearer '' @ s)
                  | Some (Object t) \<Rightarrow> Some (''Bearer '' @ t))
                 bodyJson))
       \<and> (\<not> truthy_opt (field route ''token'') \<and> \<not> truthy_opt (field route ''authKeyEnvName'') \<longrightarrow>
            rest_sends P G route bodyJson (rest_request url None bodyJson))
       \<and> (\<forall>header.
            out_method (rest_request url header bodyJson) = ''POST''
            \<and> out_body (rest_request url header bodyJson) = bodyJson
            \<and> map_of (out_headers (rest_request url header bodyJson)) ''Content-Type'' =
                Some ''application/json''
            \<and> map_of (out_headers (rest_request url header bodyJson)) ''Authorization'' =
                header)"
proof (intro conjI allI impI)
  from assms(1) have nn: "route \<noteq> JNull" by (rule truthy_not_null)
  {
    fix token_text
    assume a: "truthy_opt (field route ''token'') \<and> String_opt (field route ''token'') = Inr token_text"
    then have c: "credential G route = Inr (From_route (field route ''token''))"
      by (simp add: credential_def)
    from rest_sends_credential [OF nn c _ assms(2), of token_text P bodyJson] a
    show "rest_sends P G route bodyJson (rest_request url (Some (''Bearer '' @ token_text)) bodyJson)"
      by simp
  next
    fix name
    assume a: "\<not> truthy_opt (field route ''token'') \<and> truthy_opt (field route ''authKeyEnvName'')
                  \<and> String_opt (field route ''authKeyEnvName'') = Inr name"
    then have c: "credential G route = Inr (From_env (env_read G name))"
      by (simp add: credential_def)
    obtain t where t: "String_token (From_env (env_read G name)) = Inr t"
      using String_token_From_env by blast
    have "(if truthy_token (From_env (env_read G name)) then Some (''Bearer '' @ t) else None) =
          (case env_read G name of
                    None \<Rightarrow> None
                  | Some (Secret s) \<Rightarrow> if s = [] then None else Some (''Bearer '' @ s)
                  | Some (Object t) \<Rightarrow> Some (''Bearer '' @ t))"
      using t by (cases "env_read G name") (auto split: env_value.splits)
    with rest_sends_credential [OF nn c t assms(2), of P bodyJson]
    show "rest_sends P G route bodyJson
              (rest_request url
                 (case env_read G name of
                    None \<Rightarrow> None
                  | Some (Secret s) \<Rightarrow> if s = [] then None else Some (''Bearer '' @ s)
                  | Some (Object t) \<Rightarrow> Some (''Bearer '' @ t))
                 bodyJson)"
      by simp
  next
    assume a: "\<not> truthy_opt (field route ''token'') \<and> \<not> truthy_opt (field route ''authKeyEnvName'')"
    then have c: "credential G route = Inr (From_route (field route ''token''))"
      by (simp add: credential_def)
    from rest_sends_credential [OF nn c _ assms(2), of "[]" P bodyJson] a
    show "rest_sends P G route bodyJson (rest_request url None bodyJson)"
      by simp
  }
next
  fix header
  show "out_method (rest_request url header bodyJson) = ''POST''"
    "out_body (rest_request url header bodyJson) = bodyJson"
    "map_of (out_headers (rest_request url header bodyJson)) ''Content-Type'' =
                Some ''application/json''"
    "map_of (out_headers (rest_request url header bodyJson)) ''Authorization'' =
                header"
    by (simp_all add: rest_request_def split: option.splits)
qed

theorem rest_credential_precedence_witness:
  "handleRest_request orders_gateway
     (JObj [(''type'', JStr ''REST''),
            (''targetUrl'', JStr ''https://orders.example.com''),
            (''token'', JStr ''T1''),
            (''authKeyEnvName'', JStr ''ORDERS_KEY''),
            (''table_name'', JStr ''orders'')])
     (JObj [(''service'', JStr ''orders''), (''payload'', JObj [])]) =
   (Inr \<lparr>out_url = ''https://orders.example.com'',
         out_method = ''POST'',
         out_headers = [(''Content-Type'', ''application/json''), (''Authorization'', ''Bearer T1'')],
         out_body = JObj [(''service'', JStr ''orders''), (''payload'', JObj [])]\<rparr>, [])
   \<and> handleRest_request orders_gateway
     (JObj [(''type'', JStr ''REST''),
            (''targetUrl'', JStr ''https://orders.example.com''),
            (''authKeyEnvName'', JStr ''ORDERS_KEY'')])
     (JObj [(''service'', JStr ''orders''), (''payload'', JObj [])]) =
   (Inr \<lparr>out_url = ''https://orders.example.com'',
         out_method = ''POST'',
         out_headers = [(''Content-Type'', ''application/json''), (''Authorization'', ''Bearer K2'')],
         out_body = JObj [(''service'', JStr ''orders''), (''payload'', JObj [])]\<rparr>, [])"
proof -
  let ?both = "JObj [(''type'', JStr ''REST''),
            (''targetUrl'', JStr ''https://orders.example.com''),
            (''token'', JStr ''T1''),
            (''authKeyEnvName'', JStr ''ORDERS_KEY''),
            (''table_name'', JStr ''orders'')]"
  let ?named = "JObj [(''type'', JStr ''REST''),
            (''targetUrl'', JStr ''https://orders.example.com''),
            (''authKeyEnvName'', JStr ''ORDERS_KEY'')]"
  let ?body = "JObj [(''service'', JStr ''orders''), (''payload'', JObj [])]"
  have t: "truthy ?both" "truthy ?named" by simp_all
  have u: "String_opt (field ?both ''targetUrl'') = Inr ''https://orders.example.com''"
    "String_opt (field ?named ''targetUrl'') = Inr ''https://orders.example.com''" by simp_all
  have k: "truthy_opt (field ?both ''token'') \<and> String_opt (field ?both ''token'') = Inr ''T1''"
    by simp
  have n: "\<not> truthy_opt (field ?named ''token'') \<and> truthy_opt (field ?named ''authKeyEnvName'')
                  \<and> String_opt (field ?named ''authKeyEnvName'') = Inr ''ORDERS_KEY''"
    by simp
  have e: "env_read orders_gateway ''ORDERS_KEY'' = Some (Secret ''K2'')"
    by (simp add: env_read_def orders_gateway_def)
  from rest_credential_precedence [OF t(1) u(1), of example_platform orders_gateway ?body] k
  have one: "rest_sends example_platform orders_gateway ?both ?body
      (rest_request ''https://orders.example.com'' (Some (''Bearer '' @ ''T1'')) ?body)"
    by blast
  from rest_credential_precedence [OF t(2) u(2), of example_platform orders_gateway ?body] n
  have two: "rest_sends example_platform orders_gateway ?named ?body
      (rest_request ''https://orders.example.com''
         (case env_read orders_gateway ''ORDERS_KEY'' of
                    None \<Rightarrow> None
                  | Some (Secret s) \<Rightarrow> if s = [] then None else Some (''Bearer '' @ s)
                  | Some (Object t) \<Rightarrow> Some (''Bearer '' @ t)) ?body)"
    by blast
  from one two show ?thesis
    unfolding e by (simp add: rest_sends_def rest_request_def)
qed

text \<open>
  Claim C7 as stated has no Authorization header when neither the token nor a secret of
  the given name resolves. For a route without token whose \<open>authKeyEnvName\<close> is
  "constructor", in an environment that has no secret of that name, the read of line 17
  finds the constructor \<open>env\<close> inherits and the request carries its string conversion.
\<close>

theorem inherited_property_counterexample:
  "handleRest_request gateway_no_store
     (JObj [(''type'', JStr ''REST''),
            (''targetUrl'', JStr ''https://orders.example.com''),
            (''authKeyEnvName'', JStr ''constructor'')])
     (JObj [(''service'', JStr ''orders''), (''payload'', JObj [])]) =
   (Inr \<lparr>out_url = ''https://orders.example.com'',
         out_method = ''POST'',
         out_headers = [(''Content-Type'', ''application/json''),
                        (''Authorization'', ''Bearer function Object() { [native code] }'')],
         out_body = JObj [(''service'', JStr ''orders''), (''payload'', JObj [])]\<rparr>, [])
   \<and> G_ENV gateway_no_store ''constructor'' = None"
  by (simp add: run_defs gateway_no_store_def)

text \<open>
  Claim C3. The credential of \<open>handleAbly\<close> is the one of \<open>handleRest\<close>, and the
  header is "Basic " followed by its base64 (\<open>handleAbly_request_eq\<close>). But the header
  is always set: for an ABLY route with neither \<open>token\<close> nor \<open>authKeyEnvName\<close> the
  published request carries "Basic dW5kZWZpbmVk", the base64 of the text "undefined",
  where \<open>handleRest\<close> on a route without credential sends no Authorization header.
\<close>

theorem ably_sends_basic_undefined:
  "handleAbly_request P G
     (JObj [(''type'', JStr ''ABLY''), (''channelName'', JStr ''system_bus_v1'')])
     (JObj [(''service'', JStr ''bus''), (''payload'', JObj [])]) =
   (Inr \<lparr>out_url = ''https://rest.ably.io/channels/'' @ encodeURIComponent P ''system_bus_v1'' @ ''/messages'',
         out_method = ''POST'',
         out_headers = [(''Authorization'', ''Basic dW5kZWZpbmVk''),
                        (''Content-Type'', ''application/json'')],
         out_body = JArr [JObj [(''name'', JStr ''gateway-event''),
                                (''data'', JObj [(''service'', JStr ''bus''), (''payload'', JObj [])])]]\<rparr>,
    [])
   \<and> handleRest_request G
     (JObj [(''type'', JStr ''REST''), (''targetUrl'', JStr ''https://orders.example.com'')])
     (JObj [(''service'', JStr ''bus''), (''payload'', JObj [])]) =
   (Inr \<lparr>out_url = ''https://orders.example.com'',
         out_method = ''POST'',
         out_headers = [(''Content-Type'', ''application/json'')],
         out_body = JObj [(''service'', JStr ''bus''), (''payload'', JObj [])]\<rparr>,
    [])"
  by (simp add: run_defs btoa_def b64_def)

theorem ably_sends_basic_undefined_witness:
  "handleAbly_request example_platform gateway_no_store
     (JObj [(''type'', JStr ''ABLY''), (''channelName'', JStr ''system_bus_v1'')])
     (JObj [(''service'', JStr ''bus''), (''payload'', JObj [])]) =
   (Inr \<lparr>out_url = ''https://rest.ably.io/channels/system_bus_v1/messages'',
         out_method = ''POST'',
         out_headers = [(''Authorization'', ''Basic dW5kZWZpbmVk''),
                        (''Content-Type'', ''application/json'')],
         out_body = JArr [JObj [(''name'', JStr ''gateway-event''),
                                (''data'', JObj [(''service'', JStr ''bus''), (''payload'', JObj [])])]]\<rparr>,
    [])"
  using ably_sends_basic_undefined [of example_platform gateway_no_store, THEN conjunct1]
  by (simp add: example_platform_def)

end
